theory Spec2Isabelle
  imports Main "HOL-Library.Sublist"
begin

section \<open>Data model (models/types.ts)\<close>

text \<open>
  The interfaces of \<^verbatim>\<open>models/types.ts\<close> become records. JavaScript numbers that the
  code only counts, compares or copies are integers. Field names are those of the source,
  with a prefix where two interfaces share a name or where the name is taken in HOL:
  \<^verbatim>\<open>Oferta.id\<close> is \<open>oferta_id\<close>, \<^verbatim>\<open>EndpointConfig.name\<close> is \<open>ep_name\<close>,
  \<^verbatim>\<open>EmprendimientoConfig.id\<close> and \<^verbatim>\<open>.name\<close> are \<open>emp_id\<close> and \<open>emp_name\<close>,
  \<^verbatim>\<open>DateRange.from\<close> and \<^verbatim>\<open>.to\<close> are \<open>range_from\<close> and \<open>range_to\<close>, the fields of
  \<^verbatim>\<open>Partial<ApiQueryParams>\<close> carry the prefix \<open>p_\<close>, those of \<^verbatim>\<open>EmailConfig\<close> the prefix
  \<open>mail_\<close>, and \<^verbatim>\<open>ExtraccionSummary.emprendimiento\<close> and \<^verbatim>\<open>.fecha_extraccion\<close> the
  prefix \<open>s_\<close>. A \<^verbatim>\<open>Date\<close> is its time value in milliseconds.
\<close>

record Oferta =
  oferta_id :: int
  codigo :: string
  nombre :: string
  fecha_publicacion :: string
  fecha_cierre :: string
  organismo :: string
  unidad :: string
  id_estado :: int
  estado :: string
  monto_disponible :: int
  moneda :: string
  monto_disponible_CLP :: int
  fecha_cambio :: "string option"
  valor_cambio_moneda :: "int option"
  cantidad_proveedores_cotizando :: int
  estado_convocatoria :: int

text \<open>
  \<^verbatim>\<open>OfertaDocument extends Oferta\<close>. The optional \<^verbatim>\<open>_id\<close> is never set by this
  repository (the driver assigns it on insertion) and is left out.
\<close>

record OfertaDocument = Oferta +
  emprendimiento :: string
  endpoint_name :: string
  fecha_extraccion :: nat
  enlace_ficha :: string

text \<open>
  The payload of an \<^verbatim>\<open>ApiResponse\<close>. The fields \<^verbatim>\<open>trace\<close> and \<^verbatim>\<open>errores\<close> (of type
  \<^verbatim>\<open>any\<close>) are never read and are left out. A response whose payload is missing or
  malformed has \<open>payload = None\<close>.
\<close>

record Payload =
  resultCount :: int
  pageCount :: int
  page :: int
  pageSize :: int
  resultados :: "Oferta list"

record ApiResponse =
  success :: string
  payload :: "Payload option"

record ApiQueryParams =
  date_from :: string
  date_to :: string
  order_by :: string
  page_number :: int
  status :: int
  category :: "string option"
  region :: "string option"
  keywords_param :: "string option"

text \<open>\<^verbatim>\<open>Partial<ApiQueryParams>\<close>: every field may be absent.\<close>

record PartialApiQueryParams =
  p_date_from :: "string option"
  p_date_to :: "string option"
  p_order_by :: "string option"
  p_page_number :: "int option"
  p_status :: "int option"
  p_category :: "string option"
  p_region :: "string option"
  p_keywords :: "string option"

record EndpointConfig =
  ep_name :: string
  ep_description :: string
  ep_params :: PartialApiQueryParams

record EmprendimientoConfig =
  emp_id :: string
  emp_name :: string
  emp_description :: string
  endpoints :: "EndpointConfig list"
  emailRecipients :: "string list"

record ExtraccionSummary =
  s_emprendimiento :: string
  total_ofertas :: int
  nuevas_ofertas :: int
  s_fecha_extraccion :: nat
  endpoints_consultados :: "string list"

record DateRange =
  range_from :: string
  range_to :: string

section \<open>Deduplication (ExtractionService.removeDuplicateOffers)\<close>

text \<open>
  \<^verbatim>\<open>ofertas.filter\<close> with the mutable \<^verbatim>\<open>Set<number>\<close> of ids seen so far: the set is
  threaded through the traversal, left to right.
\<close>

fun removeDuplicateOffers_from :: "int set \<Rightarrow> OfertaDocument list \<Rightarrow> OfertaDocument list" where
  "removeDuplicateOffers_from seen [] = []"
| "removeDuplicateOffers_from seen (oferta # ofertas) =
     (if oferta_id oferta \<in> seen then removeDuplicateOffers_from seen ofertas
      else oferta # removeDuplicateOffers_from (insert (oferta_id oferta) seen) ofertas)"

definition removeDuplicateOffers :: "OfertaDocument list \<Rightarrow> OfertaDocument list" where
  "removeDuplicateOffers ofertas = removeDuplicateOffers_from {} ofertas"


section \<open>Errors, the environment and the observable trace\<close>

text \<open>
  A thrown value is an \<open>error\<close>: a plain \<^verbatim>\<open>Error\<close> with its message, a MongoDB server
  error with its numeric \<^verbatim>\<open>code\<close> and message, or the error axios raises for a response
  whose status is outside 2xx.
\<close>

datatype error = Error string | MongoServerError int string | AxiosError int

fun code :: "error \<Rightarrow> int option" where
  "code (MongoServerError c m) = Some c"
| "code (Error m) = None"
| "code (AxiosError st) = None"

text \<open>
  A storage failure that the environment brings about by itself: any error but one that
  carries the duplicate-key code 11000, which the server raises for a violated unique index
  only. It may be a lost connection (an error without code) or a server error with another
  code, such as a failed document validation. \<open>thrown_error\<close> is the error thrown.
\<close>

typedef storage_failure = "{e. code e \<noteq> Some 11000}"
  morphisms thrown_error as_failure
  by (rule exI[of _ "Error []"]) simp

text \<open>
  The rendered HTML of an email is kept symbolic: the template that was chosen and the
  values substituted into it (the last argument is the time of generation).
\<close>

datatype html =
    NoOfertasHtml string string nat
  | OfertasHtml "OfertaDocument list" string string nat
  | ErrorHtml string error nat

record EmailConfig =
  mail_to :: "string list"
  mail_subject :: string
  mail_html :: html

text \<open>Every call that leaves the process is recorded, in order.\<close>

datatype event =
    HttpGet string ApiQueryParams
  | Delay nat
  | DbConnect
  | DbCreateIndex string
  | DbInsertOne OfertaDocument
  | HttpPost string EmailConfig

text \<open>
  The world the services run in. The three scripts hold what the environment answers to the
  successive calls: \<open>http_get_script\<close> the outcome of each \<^verbatim>\<open>axios.get\<close> (a transport error,
  or the HTTP status and body), \<open>http_post_script\<close> the outcome of each \<^verbatim>\<open>axios.post\<close> (a transport
  error, or the HTTP status; the body of the answer is only logged), and
  \<open>storage_script\<close>, for each call to the MongoDB driver, the storage failure that makes
  the call throw, or \<open>None\<close> when the server answers normally. A script
  that has run out answers with a transport error (HTTP) or normally (storage).
  \<open>ofertas_collection\<close> is the collection \<^verbatim>\<open>ofertas\<close> on the server and
  \<open>unique_oferta_emprendimiento\<close> tells whether its unique index exists; \<open>client\<close>, \<open>db\<close>
  (set or \<^verbatim>\<open>null\<close>) and \<open>isConnected\<close> are the fields of \<^verbatim>\<open>DatabaseService\<close>. \<open>clock\<close> is
  the current time, advanced by the delays; \<open>toISODate\<close> and \<open>toLocaleDateString\<close> are the
  runtime's formatting of a time value (\<^verbatim>\<open>toISOString().split("T")[0]\<close> and
  \<^verbatim>\<open>toLocaleDateString("es-CL")\<close>).
\<close>

record world =
  clock :: nat
  toISODate :: "nat \<Rightarrow> string"
  toLocaleDateString :: "nat \<Rightarrow> string"
  http_get_script :: "(error + int \<times> ApiResponse) list"
  http_post_script :: "(error + int) list"
  storage_script :: "storage_failure option list"
  ofertas_collection :: "OfertaDocument list"
  unique_oferta_emprendimiento :: bool
  client :: bool
  db :: bool
  isConnected :: bool
  trace :: "event list"

definition log_event :: "event \<Rightarrow> world \<Rightarrow> world" where
  "log_event ev w = w\<lparr>trace := trace w @ [ev]\<rparr>"

text \<open>\<^verbatim>\<open>setTimeout\<close> behind a promise: the time passes, nothing fails.\<close>

definition delay :: "nat \<Rightarrow> world \<Rightarrow> world" where
  "delay ms w = log_event (Delay ms) (w\<lparr>clock := clock w + ms\<rparr>)"

text \<open>axios rejects a response whose status is outside 2xx (its default \<^verbatim>\<open>validateStatus\<close>).\<close>

definition validateStatus :: "int \<Rightarrow> bool" where
  "validateStatus st = (200 \<le> st \<and> st < 300)"

definition accepted :: "error + int \<times> ApiResponse \<Rightarrow> error + int \<times> ApiResponse" where
  "accepted r =
     (case r of
        Inl e \<Rightarrow> Inl e
      | Inr (st, body) \<Rightarrow> if validateStatus st then Inr (st, body) else Inl (AxiosError st))"

definition axios_get :: "string \<Rightarrow> ApiQueryParams \<Rightarrow> world \<Rightarrow> (error + int \<times> ApiResponse) \<times> world" where
  "axios_get url params w =
     (case http_get_script w of
        [] \<Rightarrow> (Inl (Error ''Network Error''), log_event (HttpGet url params) w)
      | r # rs \<Rightarrow> (accepted r, log_event (HttpGet url params) (w\<lparr>http_get_script := rs\<rparr>)))"

definition axios_post :: "string \<Rightarrow> EmailConfig \<Rightarrow> world \<Rightarrow> (error + int) \<times> world" where
  "axios_post url body w =
     (case http_post_script w of
        [] \<Rightarrow> (Inl (Error ''Network Error''), log_event (HttpPost url body) w)
      | r # rs \<Rightarrow>
          ((case r of
              Inl e \<Rightarrow> Inl e
            | Inr st \<Rightarrow> if validateStatus st then Inr st else Inl (AxiosError st)),
           log_event (HttpPost url body) (w\<lparr>http_post_script := rs\<rparr>)))"

text \<open>One call to the MongoDB driver: the event is recorded and the script says whether it fails.\<close>

definition storage_call :: "event \<Rightarrow> world \<Rightarrow> storage_failure option \<times> world" where
  "storage_call ev w =
     (case storage_script w of
        [] \<Rightarrow> (None, log_event ev w)
      | f # fs \<Rightarrow> (f, log_event ev (w\<lparr>storage_script := fs\<rparr>)))"

section \<open>Paginated fetcher (ChileCompraApiService)\<close>

record ChileCompraApiService =
  baseUrl :: string
  apiKey :: string
  delayBetweenRequests :: nat

text \<open>
  JavaScript's \<^verbatim>\<open>a || b\<close> on an optional string and on an optional number: an absent
  value, the empty string and \<^verbatim>\<open>0\<close> are falsy.
\<close>

definition str_or :: "string option \<Rightarrow> string \<Rightarrow> string" where
  "str_or a b = (case a of None \<Rightarrow> b | Some s \<Rightarrow> if s = [] then b else s)"

definition num_or :: "int option \<Rightarrow> int \<Rightarrow> int" where
  "num_or a b = (case a of None \<Rightarrow> b | Some n \<Rightarrow> if n = 0 then b else n)"

definition falsy_str :: "string option \<Rightarrow> bool" where
  "falsy_str a = (case a of None \<Rightarrow> True | Some s \<Rightarrow> s = [])"

text \<open>
  \<^verbatim>\<open>fetchPage\<close>: one GET of \<^verbatim>\<open>baseUrl/compra-agil\<close>. It throws what axios throws, throws
  when the body's \<^verbatim>\<open>success\<close> is not \<^verbatim>\<open>"OK"\<close>, and throws a \<^verbatim>\<open>TypeError\<close> when it reads
  \<^verbatim>\<open>payload.resultados.length\<close> of a body without payload. The response is returned through
  its payload, the only part the callers modelled here read. \<open>pageResult\<close> is what
  \<^verbatim>\<open>fetchPage\<close> makes of one entry of the script.
\<close>

definition api_error_prefix :: string where
  "api_error_prefix = ''API respondi'' @ [CHR 0xC3, CHR 0xB3] @ '' con error: ''"

definition checkBody :: "error + int \<times> ApiResponse \<Rightarrow> error + Payload" where
  "checkBody r =
     (case r of
        Inl e \<Rightarrow> Inl e
      | Inr (st, body) \<Rightarrow>
          if success body \<noteq> ''OK'' then Inl (Error (api_error_prefix @ success body))
          else (case payload body of
                  None \<Rightarrow> Inl (Error ''TypeError'')
                | Some p \<Rightarrow> Inr p))"

definition pageResult :: "error + int \<times> ApiResponse \<Rightarrow> error + Payload" where
  "pageResult r = checkBody (accepted r)"

definition fetchPage :: "ChileCompraApiService \<Rightarrow> ApiQueryParams \<Rightarrow> world \<Rightarrow> (error + Payload) \<times> world" where
  "fetchPage svc params w =
     (case axios_get (baseUrl svc @ ''/compra-agil'') params w of
        (r, w') \<Rightarrow> (checkBody r, w'))"

definition firstPageParams :: "PartialApiQueryParams \<Rightarrow> ApiQueryParams" where
  "firstPageParams baseParams =
     \<lparr>date_from = str_or (p_date_from baseParams) [],
      date_to = str_or (p_date_to baseParams) [],
      order_by = str_or (p_order_by baseParams) ''recent'',
      page_number = 1,
      status = num_or (p_status baseParams) 2,
      category = p_category baseParams,
      region = p_region baseParams,
      keywords_param = p_keywords baseParams\<rparr>"

text \<open>
  The \<^verbatim>\<open>for\<close> loop over the pages 2 to \<^verbatim>\<open>totalPages\<close> of \<^verbatim>\<open>getAllOfertas\<close>. It returns the
  error that left the loop, if any, with \<^verbatim>\<open>allOfertas\<close> as it stands at that moment.
\<close>

function pagesLoop ::
  "ChileCompraApiService \<Rightarrow> ApiQueryParams \<Rightarrow> int \<Rightarrow> int \<Rightarrow> Oferta list \<Rightarrow> world
     \<Rightarrow> error option \<times> Oferta list \<times> world" where
  "pagesLoop svc firstParams currentPage totalPages allOfertas w =
     (if currentPage \<le> totalPages then
        (case fetchPage svc (firstParams\<lparr>page_number := currentPage\<rparr>)
                (delay (delayBetweenRequests svc) w) of
           (Inl e, w') \<Rightarrow> (Some e, allOfertas, w')
         | (Inr p, w') \<Rightarrow>
             pagesLoop svc firstParams (currentPage + 1) totalPages (allOfertas @ resultados p) w')
      else (None, allOfertas, w))"
  by pat_completeness auto
termination
  by (relation "measure (\<lambda>(svc, firstParams, currentPage, totalPages, allOfertas, w).
        nat (totalPages + 1 - currentPage))") auto

declare pagesLoop.simps [simp del]

text \<open>
  \<^verbatim>\<open>getAllOfertas\<close>: the first page, then the loop; the \<^verbatim>\<open>catch\<close> returns what was
  accumulated when that is not empty and rethrows otherwise.
\<close>

definition getAllOfertas :: "ChileCompraApiService \<Rightarrow> PartialApiQueryParams \<Rightarrow> world \<Rightarrow> (error + Oferta list) \<times> world" where
  "getAllOfertas svc baseParams w =
     (case fetchPage svc (firstPageParams baseParams) w of
        (Inl e, w1) \<Rightarrow> (Inl e, w1)
      | (Inr firstResponse, w1) \<Rightarrow>
          (case pagesLoop svc (firstPageParams baseParams) 2 (pageCount firstResponse)
                  (resultados firstResponse) w1 of
             (None, allOfertas, w2) \<Rightarrow> (Inr allOfertas, w2)
           | (Some e, allOfertas, w2) \<Rightarrow>
               (if length allOfertas > 0 then Inr allOfertas else Inl e, w2)))"

subsection \<open>Date validation (getOfertasWithParams)\<close>

definition is_digit :: "char \<Rightarrow> bool" where
  "is_digit c = (48 \<le> (of_char c :: nat) \<and> (of_char c :: nat) \<le> 57)"

definition digit_val :: "char \<Rightarrow> int" where
  "digit_val c = int (of_char c) - 48"

text \<open>\<^verbatim>\<open>/^\d{4}-\d{2}-\d{2}$/.test(s)\<close>: exactly ten characters, digits around two hyphens.\<close>

fun dateRegex_test :: "string \<Rightarrow> bool" where
  "dateRegex_test [y1, y2, y3, y4, h1, m1, m2, h2, d1, d2] =
     (is_digit y1 \<and> is_digit y2 \<and> is_digit y3 \<and> is_digit y4 \<and> h1 = CHR ''-'' \<and>
      is_digit m1 \<and> is_digit m2 \<and> h2 = CHR ''-'' \<and> is_digit d1 \<and> is_digit d2)"
| "dateRegex_test s = False"

text \<open>The year, month and day that a string of that form writes.\<close>

fun ymd :: "string \<Rightarrow> int \<times> int \<times> int" where
  "ymd [y1, y2, y3, y4, h1, m1, m2, h2, d1, d2] =
     (1000 * digit_val y1 + 100 * digit_val y2 + 10 * digit_val y3 + digit_val y4,
      10 * digit_val m1 + digit_val m2,
      10 * digit_val d1 + digit_val d2)"
| "ymd s = (0, 0, 0)"

text \<open>
  \<^verbatim>\<open>new Date(s)\<close> for a string of that form, as Node's engine parses a date-only ISO
  string: the month must be 1 to 12 and the day 1 to 31, else the date is invalid (its time
  value is \<^verbatim>\<open>NaN\<close>, here \<open>None\<close>); the time value is midnight UTC of the day reached from
  the first of the month (ECMAScript's \<^verbatim>\<open>DayFromYear\<close> and \<^verbatim>\<open>MakeDay\<close>). The code applies
  it to no other string.
\<close>

definition DayFromYear :: "int \<Rightarrow> int" where
  "DayFromYear y = 365 * (y - 1970) + (y - 1969) div 4 - (y - 1901) div 100 + (y - 1601) div 400"

definition InLeapYear :: "int \<Rightarrow> bool" where
  "InLeapYear y = (y mod 4 = 0 \<and> (y mod 100 \<noteq> 0 \<or> y mod 400 = 0))"

definition DaysInMonth :: "int \<Rightarrow> int \<Rightarrow> int" where
  "DaysInMonth y m =
     (if m = 2 then (if InLeapYear y then 29 else 28)
      else if m = 4 \<or> m = 6 \<or> m = 9 \<or> m = 11 then 30 else 31)"

fun daysBeforeMonth :: "int \<Rightarrow> nat \<Rightarrow> int" where
  "daysBeforeMonth y 0 = 0"
| "daysBeforeMonth y (Suc k) = daysBeforeMonth y k + DaysInMonth y (int (Suc k))"

definition MakeDay :: "int \<Rightarrow> int \<Rightarrow> int \<Rightarrow> int" where
  "MakeDay y m d = DayFromYear y + daysBeforeMonth y (nat (m - 1)) + d - 1"

definition new_Date :: "string \<Rightarrow> int option" where
  "new_Date s =
     (case ymd s of
        (y, m, d) \<Rightarrow>
          if dateRegex_test s \<and> 1 \<le> m \<and> m \<le> 12 \<and> 1 \<le> d \<and> d \<le> 31
          then Some (MakeDay y m d * 86400000) else None)"

text \<open>\<^verbatim>\<open>dateFrom > dateTo\<close> on two dates: false as soon as one of them is invalid.\<close>

definition date_gt :: "int option \<Rightarrow> int option \<Rightarrow> bool" where
  "date_gt a b = (case (a, b) of (Some x, Some y) \<Rightarrow> x > y | _ \<Rightarrow> False)"

definition obligatorios_message :: string where
  "obligatorios_message = ''Los par'' @ [CHR 0xC3, CHR 0xA1] @ ''metros date_from y date_to son obligatorios''"

text \<open>The three checks of \<^verbatim>\<open>getOfertasWithParams\<close>, in its order: the error it throws, if any.\<close>

definition validateParams :: "PartialApiQueryParams \<Rightarrow> error option" where
  "validateParams params =
     (if falsy_str (p_date_from params) \<or> falsy_str (p_date_to params)
      then Some (Error obligatorios_message)
      else if \<not> dateRegex_test (str_or (p_date_from params) [])
              \<or> \<not> dateRegex_test (str_or (p_date_to params) [])
      then Some (Error ''Las fechas deben estar en formato YYYY-MM-DD'')
      else if date_gt (new_Date (str_or (p_date_from params) []))
                      (new_Date (str_or (p_date_to params) []))
      then Some (Error ''date_from no puede ser posterior a date_to'')
      else None)"

definition getOfertasWithParams :: "ChileCompraApiService \<Rightarrow> PartialApiQueryParams \<Rightarrow> world \<Rightarrow> (error + Oferta list) \<times> world" where
  "getOfertasWithParams svc params w =
     (case validateParams params of
        Some e \<Rightarrow> (Inl e, w)
      | None \<Rightarrow> getAllOfertas svc params w)"

section \<open>Persistence gateway (DatabaseService)\<close>

definition not_connected :: error where
  "not_connected = Error ''Base de datos no conectada''"

definition isConnectionActive :: "world \<Rightarrow> bool" where
  "isConnectionActive w = (isConnected w \<and> client w)"

text \<open>\<^verbatim>\<open>getOfertasCollection\<close> throws when \<^verbatim>\<open>db\<close> is \<^verbatim>\<open>null\<close>.\<close>

definition getOfertasCollection :: "world \<Rightarrow> error option" where
  "getOfertasCollection w = (if \<not> db w then Some not_connected else None)"

text \<open>
  \<^verbatim>\<open>collection.createIndex\<close>, one call to the driver; creating
  \<^verbatim>\<open>unique_oferta_emprendimiento\<close> puts the unique index on the collection.
\<close>

definition createIndex :: "string \<Rightarrow> world \<Rightarrow> error option \<times> world" where
  "createIndex index_name w =
     (case storage_call (DbCreateIndex index_name) w of
        (Some f, w') \<Rightarrow> (Some (thrown_error f), w')
      | (None, w') \<Rightarrow>
          (None, if index_name = ''unique_oferta_emprendimiento''
                 then w'\<lparr>unique_oferta_emprendimiento := True\<rparr> else w'))"

definition createIndexes :: "world \<Rightarrow> error option \<times> world" where
  "createIndexes w =
     (case getOfertasCollection w of
        Some e \<Rightarrow> (Some e, w)
      | None \<Rightarrow>
          (case createIndex ''unique_oferta_emprendimiento'' w of
             (Some e, w1) \<Rightarrow> (Some e, w1)
           | (None, w1) \<Rightarrow>
               (case createIndex ''fecha_extraccion_desc'' w1 of
                  (Some e, w2) \<Rightarrow> (Some e, w2)
                | (None, w2) \<Rightarrow> createIndex ''emprendimiento_index'' w2)))"

text \<open>
  \<^verbatim>\<open>connect\<close>: a new client, \<^verbatim>\<open>client.connect()\<close>, then \<^verbatim>\<open>db\<close> and \<^verbatim>\<open>isConnected\<close> are set
  and the indexes are created. Every error is logged and rethrown.
\<close>

definition connect :: "world \<Rightarrow> error option \<times> world" where
  "connect w =
     (case storage_call DbConnect (w\<lparr>client := True\<rparr>) of
        (Some f, w1) \<Rightarrow> (Some (thrown_error f), w1)
      | (None, w1) \<Rightarrow> createIndexes (w1\<lparr>db := True, isConnected := True\<rparr>))"

text \<open>
  The key of the unique index \<^verbatim>\<open>{ id: 1, emprendimiento: 1 }\<close>, and
  \<^verbatim>\<open>collection.insertOne\<close>: the call fails as the script says, or with the duplicate-key
  error (code 11000) when the index exists and holds the key already; otherwise the
  document is stored.
\<close>

definition index_key :: "OfertaDocument \<Rightarrow> int \<times> string" where
  "index_key oferta = (oferta_id oferta, emprendimiento oferta)"

definition duplicate_key :: error where
  "duplicate_key = MongoServerError 11000 ''E11000 duplicate key error''"

definition insertOne :: "OfertaDocument \<Rightarrow> world \<Rightarrow> error option \<times> world" where
  "insertOne oferta w =
     (case storage_call (DbInsertOne oferta) w of
        (Some f, w') \<Rightarrow> (Some (thrown_error f), w')
      | (None, w') \<Rightarrow>
          if unique_oferta_emprendimiento w'
             \<and> index_key oferta \<in> set (map index_key (ofertas_collection w'))
          then (Some duplicate_key, w')
          else (None, w'\<lparr>ofertas_collection := ofertas_collection w' @ [oferta]\<rparr>))"

record InsertResult =
  insertedCount :: int
  duplicateCount :: int

text \<open>The \<^verbatim>\<open>for\<close> loop of \<^verbatim>\<open>insertOfertas\<close>, with its two counters.\<close>

fun insertLoop :: "OfertaDocument list \<Rightarrow> int \<Rightarrow> int \<Rightarrow> world \<Rightarrow> (error + InsertResult) \<times> world" where
  "insertLoop [] inserted duplicates w =
     (Inr \<lparr>insertedCount = inserted, duplicateCount = duplicates\<rparr>, w)"
| "insertLoop (oferta # ofertas) inserted duplicates w =
     (case insertOne oferta w of
        (None, w') \<Rightarrow> insertLoop ofertas (inserted + 1) duplicates w'
      | (Some e, w') \<Rightarrow>
          if code e = Some 11000 then insertLoop ofertas inserted (duplicates + 1) w'
          else (Inl e, w'))"

definition insertOfertas :: "OfertaDocument list \<Rightarrow> world \<Rightarrow> (error + InsertResult) \<times> world" where
  "insertOfertas ofertas w =
     (if \<not> isConnectionActive w then (Inl not_connected, w)
      else if length ofertas = 0 then (Inr \<lparr>insertedCount = 0, duplicateCount = 0\<rparr>, w)
      else (case getOfertasCollection w of
              Some e \<Rightarrow> (Inl e, w)
            | None \<Rightarrow> insertLoop ofertas 0 0 w))"

section \<open>Notifier (EmailService)\<close>

record EmailService =
  emailServiceUrl :: string

definition generateEmailHTML :: "OfertaDocument list \<Rightarrow> string \<Rightarrow> string \<Rightarrow> nat \<Rightarrow> html" where
  "generateEmailHTML ofertas emp fecha now =
     (if length ofertas = 0 then NoOfertasHtml emp fecha now
      else OfertasHtml ofertas emp fecha now)"

definition generateFichaLink :: "string \<Rightarrow> string" where
  "generateFichaLink cod = ''https://buscador.mercadopublico.cl/ficha?code='' @ cod"

definition prepareOfertasForEmail :: "OfertaDocument list \<Rightarrow> OfertaDocument list" where
  "prepareOfertasForEmail ofertas =
     map (\<lambda>oferta. oferta\<lparr>enlace_ficha := generateFichaLink (codigo oferta)\<rparr>) ofertas"

definition report_subject :: "string \<Rightarrow> string \<Rightarrow> string" where
  "report_subject emp fechaReporte =
     [CHR 0xF0, CHR 0x9F, CHR 0x93, CHR 0x8A] @ '' Reporte Diario de Ofertas - '' @ emp
       @ '' ('' @ fechaReporte @ '')''"

definition error_subject :: "string \<Rightarrow> string" where
  "error_subject emp =
     [CHR 0xE2, CHR 0x9A, CHR 0xA0, CHR 0xEF, CHR 0xB8, CHR 0x8F] @ '' Error en Monitoreo - '' @ emp"

definition report_email :: "OfertaDocument list \<Rightarrow> string \<Rightarrow> string list \<Rightarrow> string option \<Rightarrow> world \<Rightarrow> EmailConfig" where
  "report_email ofertas emp recipients fecha w =
     \<lparr>mail_to = recipients,
      mail_subject = report_subject emp (str_or fecha (toLocaleDateString w (clock w))),
      mail_html = generateEmailHTML (prepareOfertasForEmail ofertas) emp
                    (str_or fecha (toLocaleDateString w (clock w))) (clock w)\<rparr>"

text \<open>
  \<^verbatim>\<open>sendOfertasReport\<close>: the whole body is inside \<^verbatim>\<open>try\<close> (\<open>sendOfertasReport_try\<close>, which
  throws what axios throws), and the \<^verbatim>\<open>catch\<close> turns every error into \<^verbatim>\<open>false\<close>.
\<close>

definition sendOfertasReport_try :: "EmailService \<Rightarrow> OfertaDocument list \<Rightarrow> string \<Rightarrow> string list \<Rightarrow> string option \<Rightarrow> world \<Rightarrow> (error + bool) \<times> world" where
  "sendOfertasReport_try mailer ofertas emp recipients fecha w =
     (case axios_post (emailServiceUrl mailer) (report_email ofertas emp recipients fecha w) w of
        (Inl e, w') \<Rightarrow> (Inl e, w')
      | (Inr st, w') \<Rightarrow> (Inr (if st = 200 then True else False), w'))"

definition sendOfertasReport :: "EmailService \<Rightarrow> OfertaDocument list \<Rightarrow> string \<Rightarrow> string list \<Rightarrow> string option \<Rightarrow> world \<Rightarrow> bool \<times> world" where
  "sendOfertasReport mailer ofertas emp recipients fecha w =
     (case sendOfertasReport_try mailer ofertas emp recipients fecha w of
        (Inr sent, w') \<Rightarrow> (sent, w')
      | (Inl e, w') \<Rightarrow> (False, w'))"

definition error_email :: "error \<Rightarrow> string \<Rightarrow> string list \<Rightarrow> world \<Rightarrow> EmailConfig" where
  "error_email err emp recipients w =
     \<lparr>mail_to = recipients,
      mail_subject = error_subject emp,
      mail_html = ErrorHtml emp err (clock w)\<rparr>"

definition sendErrorNotification_try :: "EmailService \<Rightarrow> error \<Rightarrow> string \<Rightarrow> string list \<Rightarrow> world \<Rightarrow> (error + bool) \<times> world" where
  "sendErrorNotification_try mailer err emp recipients w =
     (case axios_post (emailServiceUrl mailer) (error_email err emp recipients w) w of
        (Inl e, w') \<Rightarrow> (Inl e, w')
      | (Inr st, w') \<Rightarrow> (Inr (st = 200), w'))"

definition sendErrorNotification :: "EmailService \<Rightarrow> error \<Rightarrow> string \<Rightarrow> string list \<Rightarrow> world \<Rightarrow> bool \<times> world" where
  "sendErrorNotification mailer err emp recipients w =
     (case sendErrorNotification_try mailer err emp recipients w of
        (Inr sent, w') \<Rightarrow> (sent, w')
      | (Inl e, w') \<Rightarrow> (False, w'))"

section \<open>Extraction orchestrator (ExtractionService)\<close>

text \<open>
  The service holds the API client and the mailer; the fields of its
  \<^verbatim>\<open>DatabaseService\<close> live in the world. The module constant \<^verbatim>\<open>emprendimientos\<close> of
  \<^verbatim>\<open>config/emprendimientos.ts\<close> is passed to the run as an argument.
\<close>

record ExtractionService =
  apiService :: ChileCompraApiService
  emailService :: EmailService

text \<open>
  \<^verbatim>\<open>generateDateRange\<close>. \<^verbatim>\<open>new Date("2025-08-01")\<close> has the time value 1754006400000.
\<close>

definition generateDateRange :: "bool \<Rightarrow> world \<Rightarrow> DateRange" where
  "generateDateRange isInitialRun w =
     (if isInitialRun
      then \<lparr>range_from = toISODate w 1754006400000, range_to = toISODate w (clock w)\<rparr>
      else \<lparr>range_from = toISODate w (clock w), range_to = toISODate w (clock w)\<rparr>)"

definition toDocument :: "EmprendimientoConfig \<Rightarrow> EndpointConfig \<Rightarrow> nat \<Rightarrow> Oferta \<Rightarrow> OfertaDocument" where
  "toDocument emp endpoint now oferta =
     Oferta.extend oferta
       (OfertaDocument.fields (emp_id emp) (ep_name endpoint) now
          (''https://buscador.mercadopublico.cl/ficha?code='' @ codigo oferta))"

definition extractOffersForEndpoint ::
  "ExtractionService \<Rightarrow> EmprendimientoConfig \<Rightarrow> EndpointConfig \<Rightarrow> DateRange \<Rightarrow> world
     \<Rightarrow> (error + OfertaDocument list) \<times> world" where
  "extractOffersForEndpoint x emp endpoint dateRange w =
     (case getOfertasWithParams (apiService x)
             ((ep_params endpoint)\<lparr>p_date_from := Some (range_from dateRange),
                                    p_date_to := Some (range_to dateRange)\<rparr>) w of
        (Inl e, w') \<Rightarrow> (Inl e, w')
      | (Inr ofertas, w') \<Rightarrow> (Inr (map (toDocument emp endpoint (clock w')) ofertas), w'))"

text \<open>
  The loop of \<^verbatim>\<open>extractOffersForEmprendimiento\<close> over the endpoints: after a success the
  records are appended and one second passes; a failure is logged and the loop goes on.
\<close>

fun extractLoop ::
  "ExtractionService \<Rightarrow> EmprendimientoConfig \<Rightarrow> DateRange \<Rightarrow> EndpointConfig list
     \<Rightarrow> OfertaDocument list \<Rightarrow> world \<Rightarrow> OfertaDocument list \<times> world" where
  "extractLoop x emp dateRange [] allOfertas w = (allOfertas, w)"
| "extractLoop x emp dateRange (endpoint # rest) allOfertas w =
     (case extractOffersForEndpoint x emp endpoint dateRange w of
        (Inr ofertas, w') \<Rightarrow> extractLoop x emp dateRange rest (allOfertas @ ofertas) (delay 1000 w')
      | (Inl e, w') \<Rightarrow> extractLoop x emp dateRange rest allOfertas w')"

definition extractOffersForEmprendimiento ::
  "ExtractionService \<Rightarrow> EmprendimientoConfig \<Rightarrow> DateRange \<Rightarrow> world \<Rightarrow> OfertaDocument list \<times> world" where
  "extractOffersForEmprendimiento x emp dateRange w = extractLoop x emp dateRange (endpoints emp) [] w"

text \<open>\<^verbatim>\<open>xs.slice(0, n)\<close>: a negative end counts from the end of the array.\<close>

definition slice0 :: "'a list \<Rightarrow> int \<Rightarrow> 'a list" where
  "slice0 xs n = (if n < 0 then take (nat (int (length xs) + n)) xs else take (nat n) xs)"

definition periodLabel :: "DateRange \<Rightarrow> string" where
  "periodLabel dateRange = range_from dateRange @ '' - '' @ range_to dateRange"

text \<open>
  \<^verbatim>\<open>processEmprendimiento\<close>. Of the calls inside its \<^verbatim>\<open>try\<close>, only \<^verbatim>\<open>insertOfertas\<close> can
  throw: the extraction catches the errors of its endpoints and the mailer returns a boolean.
  The \<^verbatim>\<open>catch\<close> sends the error notification when there are recipients, then rethrows.
\<close>

definition processEmprendimiento ::
  "ExtractionService \<Rightarrow> EmprendimientoConfig \<Rightarrow> DateRange \<Rightarrow> world \<Rightarrow> (error + ExtraccionSummary) \<times> world" where
  "processEmprendimiento x emp dateRange w =
     (case extractOffersForEmprendimiento x emp dateRange w of
        (ofertas, w1) \<Rightarrow>
          (case insertOfertas (removeDuplicateOffers ofertas) w1 of
             (Inr res, w2) \<Rightarrow>
               (case (if length (emailRecipients emp) > 0
                      then sendOfertasReport (emailService x)
                             (slice0 (removeDuplicateOffers ofertas) (insertedCount res))
                             (emp_name emp) (emailRecipients emp) (Some (periodLabel dateRange)) w2
                      else (True, w2)) of
                  (emailSent, w3) \<Rightarrow>
                    (Inr \<lparr>s_emprendimiento = emp_name emp,
                          total_ofertas = int (length (removeDuplicateOffers ofertas)),
                          nuevas_ofertas = insertedCount res,
                          s_fecha_extraccion = clock w3,
                          endpoints_consultados = map ep_name (endpoints emp)\<rparr>, w3))
           | (Inl e, w2) \<Rightarrow>
               (Inl e,
                if length (emailRecipients emp) > 0
                then snd (sendErrorNotification (emailService x) e (emp_name emp) (emailRecipients emp) w2)
                else w2)))"

definition errorSummary :: "EmprendimientoConfig \<Rightarrow> nat \<Rightarrow> ExtraccionSummary" where
  "errorSummary emp now =
     \<lparr>s_emprendimiento = emp_name emp,
      total_ofertas = 0,
      nuevas_ofertas = 0,
      s_fecha_extraccion = now,
      endpoints_consultados = []\<rparr>"

text \<open>The loop of \<^verbatim>\<open>runCompleteExtraction\<close> over the business lines.\<close>

fun runLoop ::
  "ExtractionService \<Rightarrow> DateRange \<Rightarrow> EmprendimientoConfig list \<Rightarrow> ExtraccionSummary list \<Rightarrow> world
     \<Rightarrow> ExtraccionSummary list \<times> world" where
  "runLoop x dateRange [] summaries w = (summaries, w)"
| "runLoop x dateRange (emp # rest) summaries w =
     (case processEmprendimiento x emp dateRange w of
        (Inr summary, w') \<Rightarrow> runLoop x dateRange rest (summaries @ [summary]) w'
      | (Inl e, w') \<Rightarrow> runLoop x dateRange rest (summaries @ [errorSummary emp (clock w')]) w')"

definition runCompleteExtraction ::
  "ExtractionService \<Rightarrow> EmprendimientoConfig list \<Rightarrow> bool \<Rightarrow> world \<Rightarrow> (error + ExtraccionSummary list) \<times> world" where
  "runCompleteExtraction x emprendimientos isInitialRun w =
     (case (if \<not> isConnectionActive w then connect w else (None, w)) of
        (Some e, w1) \<Rightarrow> (Inl e, w1)
      | (None, w1) \<Rightarrow>
          (case runLoop x (generateDateRange isInitialRun w) emprendimientos [] w1 of
             (summaries, w2) \<Rightarrow> (Inr summaries, w2)))"

section \<open>Sample data for the worked examples\<close>

definition sample_oferta :: "int \<Rightarrow> string \<Rightarrow> Oferta" where
  "sample_oferta n cod =
     \<lparr>oferta_id = n, codigo = cod, nombre = ''Traslado de pasajeros'',
      fecha_publicacion = ''2025-09-24T10:00:00'', fecha_cierre = ''2025-09-30T18:00:00'',
      organismo = ''Municipalidad'', unidad = ''Adquisiciones'', id_estado = 2,
      estado = ''Publicada'', monto_disponible = 1500000, moneda = ''CLP'',
      monto_disponible_CLP = 1500000, fecha_cambio = None, valor_cambio_moneda = None,
      cantidad_proveedores_cotizando = 0, estado_convocatoria = 1\<rparr>"

definition sample_endpoint :: "string \<Rightarrow> EndpointConfig" where
  "sample_endpoint n =
     \<lparr>ep_name = n, ep_description = ''Servicios de transporte'',
      ep_params = \<lparr>p_date_from = None, p_date_to = None, p_order_by = Some ''recent'',
                   p_page_number = None, p_status = Some 2, p_category = Some ''25101500'',
                   p_region = None, p_keywords = None\<rparr>\<rparr>"

definition sample_emprendimiento :: "string list \<Rightarrow> EmprendimientoConfig" where
  "sample_emprendimiento recipients =
     \<lparr>emp_id = ''transporte'', emp_name = ''Servicios de Transporte'',
      emp_description = ''Transporte con bus'',
      endpoints = [sample_endpoint ''A'', sample_endpoint ''B''],
      emailRecipients = recipients\<rparr>"

definition sample_doc_at :: "nat \<Rightarrow> int \<Rightarrow> string \<Rightarrow> string \<Rightarrow> OfertaDocument" where
  "sample_doc_at t n cod ep =
     toDocument (sample_emprendimiento []) (sample_endpoint ep) t (sample_oferta n cod)"

definition sample_doc :: "int \<Rightarrow> string \<Rightarrow> string \<Rightarrow> OfertaDocument" where
  "sample_doc n cod ep = sample_doc_at 0 n cod ep"

definition sample_payload :: "int \<Rightarrow> int \<Rightarrow> Oferta list \<Rightarrow> Payload" where
  "sample_payload pages n ofertas =
     \<lparr>resultCount = 3, pageCount = pages, page = n, pageSize = 10, resultados = ofertas\<rparr>"

definition sample_page :: "int \<Rightarrow> int \<Rightarrow> Oferta list \<Rightarrow> error + int \<times> ApiResponse" where
  "sample_page pages n ofertas =
     Inr (200, \<lparr>success = ''OK'', payload = Some (sample_payload pages n ofertas)\<rparr>)"

definition sample_params :: PartialApiQueryParams where
  "sample_params =
     \<lparr>p_date_from = Some ''2025-09-24'', p_date_to = Some ''2025-09-24'', p_order_by = Some ''recent'',
      p_page_number = None, p_status = Some 2, p_category = Some ''25101500'',
      p_region = None, p_keywords = None\<rparr>"

definition sample_api :: ChileCompraApiService where
  "sample_api = \<lparr>baseUrl = ''https://api.example'', apiKey = ''k'', delayBetweenRequests = 2000\<rparr>"

definition sample_world :: world where
  "sample_world =
     \<lparr>clock = 0, toISODate = (\<lambda>t. ''2025-09-24''), toLocaleDateString = (\<lambda>t. ''24-09-2025''),
      http_get_script = [], http_post_script = [], storage_script = [],
      ofertas_collection = [], unique_oferta_emprendimiento = True,
      client = True, db = True, isConnected = True, trace = []\<rparr>"

definition sample_service :: ExtractionService where
  "sample_service =
     \<lparr>apiService = sample_api,
      emailService = \<lparr>emailServiceUrl = ''https://mail.example/send''\<rparr>\<rparr>"

text \<open>
  The end-to-end scenario of the specification: a business line with two query
  configurations; A returns the ids 1 and 2, B returns the ids 2 and 3; the collection
  already holds a record of id 2 of this business line.
\<close>

definition scenario_range :: DateRange where
  "scenario_range = \<lparr>range_from = ''2025-09-24'', range_to = ''2025-09-24''\<rparr>"

definition scenario_world :: world where
  "scenario_world =
     sample_world\<lparr>http_get_script :=
         [sample_page 1 1 [sample_oferta 1 ''a'', sample_oferta 2 ''b''],
          sample_page 1 1 [sample_oferta 2 ''b'', sample_oferta 3 ''c'']],
       http_post_script := [Inr 200],
       ofertas_collection := [sample_doc 2 ''b'' ''Z'']\<rparr>"

text \<open>The world of the scenario once the two configurations have been queried.\<close>

definition scenario_extracted :: world where
  "scenario_extracted =
     scenario_world\<lparr>clock := 2000, http_get_script := [],
       trace := [HttpGet ''https://api.example/compra-agil'' (firstPageParams sample_params),
                 Delay 1000,
                 HttpGet ''https://api.example/compra-agil'' (firstPageParams sample_params),
                 Delay 1000]\<rparr>"

text \<open>And once the deduplicated batch has been submitted: the ids 1 and 3 are stored.\<close>

definition scenario_inserted :: world where
  "scenario_inserted =
     scenario_extracted\<lparr>ofertas_collection :=
         [sample_doc 2 ''b'' ''Z'', sample_doc 1 ''a'' ''A'', sample_doc_at 1000 3 ''c'' ''B''],
       trace := trace scenario_extracted
         @ [DbInsertOne (sample_doc 1 ''a'' ''A''), DbInsertOne (sample_doc 2 ''b'' ''A''),
            DbInsertOne (sample_doc_at 1000 3 ''c'' ''B'')]\<rparr>"

text \<open>
  A run under partial failure: the connection to the store is lost at the first insertion,
  and the remote source answers the two queries of the first business line only.
\<close>

definition partial_failure_world :: world where
  "partial_failure_world =
     scenario_world\<lparr>http_post_script := [Inr 200, Inr 200],
       storage_script := [Some (as_failure (Error ''connection lost''))]\<rparr>"

text \<open>That world once the insertion of the first business line has failed.\<close>

definition partial_failure_failed :: world where
  "partial_failure_failed =
     partial_failure_world\<lparr>clock := 2000, http_get_script := [], storage_script := [],
       trace :=
         [HttpGet ''https://api.example/compra-agil'' (firstPageParams sample_params),
          Delay 1000,
          HttpGet ''https://api.example/compra-agil'' (firstPageParams sample_params),
          Delay 1000,
          DbInsertOne (sample_doc 1 ''a'' ''A'')]\<rparr>"

text \<open>
  That world once the first business line, with the recipient \<^verbatim>\<open>a@example.com\<close>, has been
  processed: two queries, the failed insertion, the error report.
\<close>

definition partial_failure_after_first :: world where
  "partial_failure_after_first =
     partial_failure_world\<lparr>clock := 2000, http_get_script := [], http_post_script := [Inr 200],
       storage_script := [],
       trace :=
         [HttpGet ''https://api.example/compra-agil'' (firstPageParams sample_params),
          Delay 1000,
          HttpGet ''https://api.example/compra-agil'' (firstPageParams sample_params),
          Delay 1000,
          DbInsertOne (sample_doc 1 ''a'' ''A''),
          HttpPost ''https://mail.example/send''
            \<lparr>mail_to = [''a@example.com''],
             mail_subject = error_subject ''Servicios de Transporte'',
             mail_html = ErrorHtml ''Servicios de Transporte'' (Error ''connection lost'') 2000\<rparr>]\<rparr>"

text \<open>A run that starts disconnected from a store that cannot be reached.\<close>

definition unreachable_world :: world where
  "unreachable_world =
     scenario_world\<lparr>storage_script := [Some (as_failure (Error ''ECONNREFUSED''))],
       client := False, db := False, isConnected := False\<rparr>"

fun isHttpPost :: "event \<Rightarrow> bool" where
  "isHttpPost (HttpPost url body) = True"
| "isHttpPost ev = False"

section \<open>Notions used to state the properties\<close>

text \<open>
  The keys held by the collection; no scripted storage failure among the next \<open>n\<close> calls
  to the driver; and the records of a batch that the unique index lets in, given the keys
  already held: a record is refused when its key is held or was brought by an earlier record
  of the batch.
\<close>

definition held_keys :: "world \<Rightarrow> (int \<times> string) set" where
  "held_keys w = index_key ` set (ofertas_collection w)"

definition storage_ok :: "nat \<Rightarrow> world \<Rightarrow> bool" where
  "storage_ok n w = list_all (\<lambda>f. f = None) (take n (storage_script w))"

fun newRecords :: "(int \<times> string) set \<Rightarrow> OfertaDocument list \<Rightarrow> OfertaDocument list" where
  "newRecords held [] = []"
| "newRecords held (x # xs) =
     (if index_key x \<in> held then newRecords held xs
      else x # newRecords (insert (index_key x) held) xs)"

text \<open>What the fetcher does for one page after the first: the delay, then the request.\<close>

definition page_events :: "ChileCompraApiService \<Rightarrow> ApiQueryParams \<Rightarrow> int \<Rightarrow> event list" where
  "page_events svc firstParams n =
     [Delay (delayBetweenRequests svc),
      HttpGet (baseUrl svc @ ''/compra-agil'') (firstParams\<lparr>page_number := n\<rparr>)]"





text \<open>The summary that the run appends for one business line, processed in the world \<open>w\<close>.\<close>

definition lineSummary :: "ExtractionService \<Rightarrow> DateRange \<Rightarrow> EmprendimientoConfig \<Rightarrow> world \<Rightarrow> ExtraccionSummary" where
  "lineSummary x dateRange emp w =
     (case processEmprendimiento x emp dateRange w of
        (Inr summary, w') \<Rightarrow> summary
      | (Inl e, w') \<Rightarrow> errorSummary emp (clock w'))"

text \<open>
  The world in which the run processes the business line that follows the lines \<open>pre\<close>:
  the one left by the connection step and by the processing of \<open>pre\<close>.
\<close>

definition lineWorld :: "ExtractionService \<Rightarrow> DateRange \<Rightarrow> EmprendimientoConfig list \<Rightarrow> world \<Rightarrow> world" where
  "lineWorld x dateRange pre w =
     snd (runLoop x dateRange pre [] (if isConnectionActive w then w else snd (connect w)))"

text \<open>The messages posted so far, in order.\<close>

definition posts :: "world \<Rightarrow> event list" where
  "posts w = filter isHttpPost (trace w)"

section \<open>Facts about the sample data\<close>

lemma sample_doc_at_fields:
  "oferta_id (sample_doc_at t n cod ep) = n"
  "codigo (sample_doc_at t n cod ep) = cod"
  "emprendimiento (sample_doc_at t n cod ep) = ''transporte''"
  "endpoint_name (sample_doc_at t n cod ep) = ep"
  "index_key (sample_doc_at t n cod ep) = (n, ''transporte'')"
  by (simp_all add: sample_doc_at_def toDocument_def sample_oferta_def sample_emprendimiento_def
      sample_endpoint_def index_key_def Oferta.extend_def OfertaDocument.fields_def)

lemma sample_doc_fields:
  "oferta_id (sample_doc n cod ep) = n"
  "codigo (sample_doc n cod ep) = cod"
  "emprendimiento (sample_doc n cod ep) = ''transporte''"
  "endpoint_name (sample_doc n cod ep) = ep"
  "index_key (sample_doc n cod ep) = (n, ''transporte'')"
  by (simp_all add: sample_doc_def sample_doc_at_fields)

lemma toDocument_sample:
  "toDocument (sample_emprendimiento r) (sample_endpoint ep) t (sample_oferta n cod) = sample_doc_at t n cod ep"
  by (simp add: sample_doc_at_def toDocument_def sample_emprendimiento_def)

lemma sample_world_fields:
  "clock sample_world = 0" "http_get_script sample_world = []"
  "http_post_script sample_world = []" "storage_script sample_world = []"
  "ofertas_collection sample_world = []" "unique_oferta_emprendimiento sample_world"
  "client sample_world" "db sample_world" "isConnected sample_world" "trace sample_world = []"
  "isConnectionActive sample_world"
  by (simp_all add: sample_world_def isConnectionActive_def)

lemma sample_page_result:
  "pageResult (sample_page pages n ofertas) = Inr (sample_payload pages n ofertas)"
  by (simp add: pageResult_def accepted_def checkBody_def validateStatus_def sample_page_def)

lemma sample_payload_fields:
  "pageCount (sample_payload pages n ofertas) = pages"
  "resultados (sample_payload pages n ofertas) = ofertas"
  by (simp_all add: sample_payload_def)

lemma sample_api_fields:
  "baseUrl sample_api = ''https://api.example''" "delayBetweenRequests sample_api = 2000"
  by (simp_all add: sample_api_def)

section \<open>Deduplication keeps the first record of every id\<close>

lemma removeDuplicateOffers_from_subseq: "subseq (removeDuplicateOffers_from seen xs) xs"
  by (induction xs arbitrary: seen) auto

lemma removeDuplicateOffers_from_ids:
  "oferta_id ` set (removeDuplicateOffers_from seen xs) = oferta_id ` set xs - seen"
  by (induction xs arbitrary: seen) auto

lemma removeDuplicateOffers_from_distinct:
  "distinct (map oferta_id (removeDuplicateOffers_from seen xs))"
  by (induction xs arbitrary: seen) (auto simp: removeDuplicateOffers_from_ids)

lemma removeDuplicateOffers_from_find:
  "find (\<lambda>x. oferta_id x = i) (removeDuplicateOffers_from seen xs) =
     (if i \<in> seen then None else find (\<lambda>x. oferta_id x = i) xs)"
  by (induction xs arbitrary: seen) auto

text \<open>
  Claim C4. For every list of records, \<^verbatim>\<open>removeDuplicateOffers\<close> returns a subsequence of
  its input, no longer than the input, in which no two records have the same numeric id,
  with the same ids as the input, and in which the record of each id is the first record of
  the input with that id, whatever the later records with that id contain.
\<close>

theorem removeDuplicateOffers_keeps_first:
  "subseq (removeDuplicateOffers xs) xs
   \<and> length (removeDuplicateOffers xs) \<le> length xs
   \<and> distinct (map oferta_id (removeDuplicateOffers xs))
   \<and> oferta_id ` set (removeDuplicateOffers xs) = oferta_id ` set xs
   \<and> (\<forall>i. find (\<lambda>x. oferta_id x = i) (removeDuplicateOffers xs) = find (\<lambda>x. oferta_id x = i) xs)"
  unfolding removeDuplicateOffers_def
  using removeDuplicateOffers_from_subseq[of "{}" xs] removeDuplicateOffers_from_distinct[of "{}" xs]
    removeDuplicateOffers_from_ids[of "{}" xs] removeDuplicateOffers_from_find[of _ "{}" xs]
  by (auto dest: list_emb_length)

text \<open>
  The end-to-end scenario of the specification: configuration A brings the ids 1 and 2,
  configuration B the ids 2 and 3; the record of id 2 that A brought is the one kept.
\<close>

theorem removeDuplicateOffers_keeps_first_witness:
  "removeDuplicateOffers
     [sample_doc 1 ''a'' ''A'', sample_doc 2 ''b'' ''A'', sample_doc 2 ''c'' ''B'', sample_doc 3 ''d'' ''B'']
     = [sample_doc 1 ''a'' ''A'', sample_doc 2 ''b'' ''A'', sample_doc 3 ''d'' ''B'']
   \<and> subseq [sample_doc 1 ''a'' ''A'', sample_doc 2 ''b'' ''A'', sample_doc 3 ''d'' ''B'']
        [sample_doc 1 ''a'' ''A'', sample_doc 2 ''b'' ''A'', sample_doc 2 ''c'' ''B'', sample_doc 3 ''d'' ''B'']
   \<and> find (\<lambda>x. oferta_id x = 2) [sample_doc 1 ''a'' ''A'', sample_doc 2 ''b'' ''A'', sample_doc 3 ''d'' ''B'']
       = Some (sample_doc 2 ''b'' ''A'')"
proof -
  have e: "removeDuplicateOffers
     [sample_doc 1 ''a'' ''A'', sample_doc 2 ''b'' ''A'', sample_doc 2 ''c'' ''B'', sample_doc 3 ''d'' ''B'']
     = [sample_doc 1 ''a'' ''A'', sample_doc 2 ''b'' ''A'', sample_doc 3 ''d'' ''B'']"
    by (simp add: removeDuplicateOffers_def sample_doc_fields)
  show ?thesis
    using removeDuplicateOffers_keeps_first
      [of "[sample_doc 1 ''a'' ''A'', sample_doc 2 ''b'' ''A'', sample_doc 2 ''c'' ''B'', sample_doc 3 ''d'' ''B'']"]
    unfolding e by (simp add: sample_doc_fields)
qed

section \<open>The insertion loop\<close>

lemma thrown_error_code: "code (thrown_error f) \<noteq> Some 11000"
  using thrown_error[of f] by simp

lemma thrown_as_failure: "code e \<noteq> Some 11000 \<Longrightarrow> thrown_error (as_failure e) = e"
  by (simp add: as_failure_inverse)

lemma insertOne_frame:
  assumes "insertOne x w = (r, w')"
  shows "trace w' = trace w @ [DbInsertOne x]" "storage_script w' = tl (storage_script w)"
    "unique_oferta_emprendimiento w' = unique_oferta_emprendimiento w"
    "client w' = client w" "db w' = db w" "isConnected w' = isConnected w"
    "ofertas_collection w' = (if r = None then ofertas_collection w @ [x] else ofertas_collection w)"
  using assms
  by (auto simp: insertOne_def storage_call_def log_event_def split: list.splits option.splits if_splits)

lemma insertOne_result:
  "fst (insertOne x w) =
     (case storage_script w of
        Some f # fs \<Rightarrow> Some (thrown_error f)
      | _ \<Rightarrow> if unique_oferta_emprendimiento w \<and> index_key x \<in> index_key ` set (ofertas_collection w)
             then Some duplicate_key else None)"
  by (auto simp: insertOne_def storage_call_def log_event_def split: list.splits option.splits if_splits)

lemma insertLoop_counts:
  "insertLoop xs i d w = (Inr res, w') \<Longrightarrow>
     insertedCount res + duplicateCount res = i + d + int (length xs)
     \<and> i \<le> insertedCount res \<and> d \<le> duplicateCount res"
proof (induction xs arbitrary: i d w)
  case Nil
  then show ?case by auto
next
  case (Cons x xs)
  obtain r w1 where s: "insertOne x w = (r, w1)" by (cases "insertOne x w")
  show ?case
  proof (cases r)
    case None
    with Cons.prems s have "insertLoop xs (i + 1) d w1 = (Inr res, w')" by simp
    from Cons.IH[OF this] show ?thesis by simp
  next
    case (Some e)
    with Cons.prems s have "insertLoop xs i (d + 1) w1 = (Inr res, w')"
      by (auto split: if_splits)
    from Cons.IH[OF this] show ?thesis by simp
  qed
qed

lemma insertOne_ok:
  assumes "storage_ok (Suc n) w" "unique_oferta_emprendimiento w"
  shows "insertOne x w =
     (if index_key x \<in> held_keys w
      then (Some duplicate_key, w\<lparr>storage_script := tl (storage_script w), trace := trace w @ [DbInsertOne x]\<rparr>)
      else (None, w\<lparr>ofertas_collection := ofertas_collection w @ [x],
                     storage_script := tl (storage_script w), trace := trace w @ [DbInsertOne x]\<rparr>))"
  using assms
  by (cases "storage_script w")
     (auto simp: insertOne_def storage_call_def log_event_def storage_ok_def held_keys_def)

lemma insertOne_fault:
  assumes "storage_script w = Some f # fs"
  shows "insertOne x w = (Some (thrown_error f), w\<lparr>storage_script := fs, trace := trace w @ [DbInsertOne x]\<rparr>)"
  using assms by (auto simp: insertOne_def storage_call_def log_event_def)

lemma storage_ok_tl: "storage_ok (Suc n) w \<Longrightarrow> storage_ok n (w\<lparr>storage_script := tl (storage_script w), trace := t\<rparr>)"
  "storage_ok (Suc n) w \<Longrightarrow> storage_ok n (w\<lparr>ofertas_collection := c, storage_script := tl (storage_script w), trace := t\<rparr>)"
  by (cases "storage_script w"; simp add: storage_ok_def)+

lemma insertLoop_ok:
  "unique_oferta_emprendimiento w \<Longrightarrow> storage_ok (length xs) w \<Longrightarrow>
   insertLoop xs i d w =
     (Inr \<lparr>insertedCount = i + int (length (newRecords (held_keys w) xs)),
           duplicateCount = d + int (length xs) - int (length (newRecords (held_keys w) xs))\<rparr>,
      w\<lparr>ofertas_collection := ofertas_collection w @ newRecords (held_keys w) xs,
        storage_script := drop (length xs) (storage_script w),
        trace := trace w @ map DbInsertOne xs\<rparr>)"
proof (induction xs arbitrary: i d w)
  case Nil
  then show ?case by simp
next
  case (Cons x xs)
  from Cons.prems have ok: "storage_ok (Suc (length xs)) w" by simp
  show ?case
  proof (cases "index_key x \<in> held_keys w")
    case True
    let ?w1 = "w\<lparr>storage_script := tl (storage_script w), trace := trace w @ [DbInsertOne x]\<rparr>"
    have s: "insertOne x w = (Some duplicate_key, ?w1)"
      using insertOne_ok[OF ok Cons.prems(1)] True by simp
    have u: "unique_oferta_emprendimiento ?w1" using Cons.prems(1) by simp
    have k: "held_keys ?w1 = held_keys w" by (simp add: held_keys_def)
    show ?thesis
      using Cons.IH[OF u storage_ok_tl(1)[OF ok], of i "d + 1"] s True k
      by (simp add: duplicate_key_def drop_Suc)
  next
    case False
    let ?w1 = "w\<lparr>ofertas_collection := ofertas_collection w @ [x],
                  storage_script := tl (storage_script w), trace := trace w @ [DbInsertOne x]\<rparr>"
    have s: "insertOne x w = (None, ?w1)"
      using insertOne_ok[OF ok Cons.prems(1)] False by simp
    have u: "unique_oferta_emprendimiento ?w1" using Cons.prems(1) by simp
    have k: "held_keys ?w1 = insert (index_key x) (held_keys w)" by (simp add: held_keys_def)
    show ?thesis
      using Cons.IH[OF u storage_ok_tl(2)[OF ok], of "i + 1" d] s False k
      by (simp add: drop_Suc)
  qed
qed

lemma insertLoop_first_failure:
  "unique_oferta_emprendimiento w \<Longrightarrow>
   storage_script w = replicate (length pre) None @ Some f # fs \<Longrightarrow>
   insertLoop (pre @ x # post) i d w =
     (Inl (thrown_error f),
      w\<lparr>ofertas_collection := ofertas_collection w @ newRecords (held_keys w) pre,
        storage_script := fs,
        trace := trace w @ map DbInsertOne (pre @ [x])\<rparr>)"
proof (induction pre arbitrary: i d w)
  case Nil
  then show ?case by (simp add: insertOne_fault thrown_error_code)
next
  case (Cons p pre)
  have ok: "storage_ok (Suc 0) w" using Cons.prems(2) by (simp add: storage_ok_def)
  have tl: "tl (storage_script w) = replicate (length pre) None @ Some f # fs"
    using Cons.prems(2) by simp
  show ?case
  proof (cases "index_key p \<in> held_keys w")
    case True
    let ?w1 = "w\<lparr>storage_script := tl (storage_script w), trace := trace w @ [DbInsertOne p]\<rparr>"
    have s: "insertOne p w = (Some duplicate_key, ?w1)"
      using insertOne_ok[OF ok Cons.prems(1)] True by simp
    have u: "unique_oferta_emprendimiento ?w1" using Cons.prems(1) by simp
    have k: "held_keys ?w1 = held_keys w" by (simp add: held_keys_def)
    have t: "storage_script ?w1 = replicate (length pre) None @ Some f # fs" using tl by simp
    show ?thesis
      using Cons.IH[OF u t, of i "d + 1"] s True k
      by (simp add: duplicate_key_def)
  next
    case False
    let ?w1 = "w\<lparr>ofertas_collection := ofertas_collection w @ [p],
                  storage_script := tl (storage_script w), trace := trace w @ [DbInsertOne p]\<rparr>"
    have s: "insertOne p w = (None, ?w1)"
      using insertOne_ok[OF ok Cons.prems(1)] False by simp
    have u: "unique_oferta_emprendimiento ?w1" using Cons.prems(1) by simp
    have k: "held_keys ?w1 = insert (index_key p) (held_keys w)" by (simp add: held_keys_def)
    have t: "storage_script ?w1 = replicate (length pre) None @ Some f # fs" using tl by simp
    show ?thesis
      using Cons.IH[OF u t, of "i + 1" d] s False k
      by simp
  qed
qed

lemma newRecords_held: "index_key ` set xs \<subseteq> held \<Longrightarrow> newRecords held xs = []"
  by (induction xs arbitrary: held) auto

lemma newRecords_keys: "index_key ` set (newRecords held xs) = index_key ` set xs - held"
  by (induction xs arbitrary: held) auto

lemma newRecords_distinct: "distinct (map index_key (newRecords held xs))"
  by (induction xs arbitrary: held) (auto simp: newRecords_keys)

lemma insertLoop_Inr_storage_ok:
  "insertLoop xs i d w = (Inr res, w') \<Longrightarrow> storage_ok (length xs) w"
proof (induction xs arbitrary: i d w)
  case Nil
  then show ?case by (simp add: storage_ok_def)
next
  case (Cons x xs)
  obtain r w1 where s: "insertOne x w = (r, w1)" by (cases "insertOne x w")
  have notfault: "\<And>f fs. storage_script w \<noteq> Some f # fs"
  proof
    fix f fs assume "storage_script w = Some f # fs"
    from insertOne_fault[OF this, of x] Cons.prems show False by (simp add: thrown_error_code)
  qed
  have w1: "storage_script w1 = tl (storage_script w)"
    using s by (auto simp: insertOne_def storage_call_def log_event_def split: list.splits option.splits if_splits)
  have "\<exists>i' d'. insertLoop xs i' d' w1 = (Inr res, w')"
    using Cons.prems s by (auto split: option.splits if_splits)
  then obtain i' d' where "insertLoop xs i' d' w1 = (Inr res, w')" by blast
  from Cons.IH[OF this] have "storage_ok (length xs) w1" .
  with w1 notfault show ?case
  proof (cases "storage_script w")
    case Nil
    then show ?thesis by (simp add: storage_ok_def)
  next
    case (Cons a fs)
    with notfault have "a = None" by (cases a) auto
    with Cons w1 \<open>storage_ok (length xs) w1\<close> show ?thesis by (simp add: storage_ok_def)
  qed
qed


lemma insertLoop_all_held:
  "unique_oferta_emprendimiento w \<Longrightarrow> index_key ` set xs \<subseteq> held_keys w \<Longrightarrow>
   ofertas_collection (snd (insertLoop xs i d w)) = ofertas_collection w
   \<and> (\<forall>res. fst (insertLoop xs i d w) = Inr res \<longrightarrow>
          res = \<lparr>insertedCount = i, duplicateCount = d + int (length xs)\<rparr>)"
proof (induction xs arbitrary: i d w)
  case Nil
  then show ?case by simp
next
  case (Cons x xs)
  obtain r w1 where s: "insertOne x w = (r, w1)" by (cases "insertOne x w")
  have c: "ofertas_collection w1 = (if r = None then ofertas_collection w @ [x] else ofertas_collection w)"
    and u: "unique_oferta_emprendimiento w1"
    using insertOne_frame[OF s] Cons.prems(1) by simp_all
  have held: "index_key x \<in> index_key ` set (ofertas_collection w)"
    using Cons.prems(2) by (simp add: held_keys_def)
  have r: "r = Some duplicate_key \<or> (\<exists>f. r = Some (thrown_error f))"
    using insertOne_result[of x w] s held Cons.prems(1)
    by (auto split: list.splits option.splits)
  then show ?case
  proof
    assume d: "r = Some duplicate_key"
    with c have k: "held_keys w1 = held_keys w" by (simp add: held_keys_def)
    have "index_key ` set xs \<subseteq> held_keys w1" using Cons.prems(2) k by simp
    from Cons.IH[OF u this, of i "d + 1"] s d c show ?thesis
      by (simp add: duplicate_key_def add.assoc)
  next
    assume "\<exists>f. r = Some (thrown_error f)"
    with s c show ?thesis by (auto simp: thrown_error_code)
  qed
qed


text \<open>
  Claim C10. Whenever \<^verbatim>\<open>insertOfertas\<close> returns, its two counts are not negative and add up
  to the number of records submitted; and when it returns on the empty batch, both counts
  are 0 and the world is the one it started in: no call to the driver was made.
\<close>

theorem insertOfertas_counts:
  "(insertOfertas ofertas w = (Inr res, w') \<longrightarrow>
      insertedCount res + duplicateCount res = int (length ofertas)
      \<and> 0 \<le> insertedCount res \<and> 0 \<le> duplicateCount res)
   \<and> (insertOfertas [] w = (Inr res, w') \<longrightarrow>
      res = \<lparr>insertedCount = 0, duplicateCount = 0\<rparr> \<and> w' = w)"
  by (auto simp: insertOfertas_def split: if_splits option.splits dest: insertLoop_counts)

text \<open>
  Three records, two of them with the same key, on an empty collection: two inserted, one
  duplicate. And the empty batch.
\<close>

theorem insertOfertas_counts_witness:
  "fst (insertOfertas [sample_doc 1 ''a'' ''A'', sample_doc 2 ''b'' ''A'', sample_doc 2 ''c'' ''B''] sample_world)
     = Inr \<lparr>insertedCount = 2, duplicateCount = 1\<rparr>
   \<and> (2::int) + 1 = int (length [sample_doc 1 ''a'' ''A'', sample_doc 2 ''b'' ''A'', sample_doc 2 ''c'' ''B''])
   \<and> insertOfertas [] sample_world = (Inr \<lparr>insertedCount = 0, duplicateCount = 0\<rparr>, sample_world)"
proof -
  let ?batch = "[sample_doc 1 ''a'' ''A'', sample_doc 2 ''b'' ''A'', sample_doc 2 ''c'' ''B'']"
  have ok: "storage_ok (length ?batch) sample_world"
    by (simp add: storage_ok_def sample_world_fields)
  have run: "fst (insertOfertas ?batch sample_world) = Inr \<lparr>insertedCount = 2, duplicateCount = 1\<rparr>"
    using insertLoop_ok[OF sample_world_fields(6) ok, of 0 0]
    by (simp add: insertOfertas_def getOfertasCollection_def sample_world_fields held_keys_def
        sample_doc_fields)
  have e: "insertOfertas [] sample_world = (Inr \<lparr>insertedCount = 0, duplicateCount = 0\<rparr>, sample_world)"
    by (simp add: insertOfertas_def sample_world_fields)
  have p: "insertOfertas ?batch sample_world =
      (Inr \<lparr>insertedCount = 2, duplicateCount = 1\<rparr>, snd (insertOfertas ?batch sample_world))"
    using run by (simp add: prod_eq_iff)
  show ?thesis
    using insertOfertas_counts[of ?batch sample_world "\<lparr>insertedCount = 2, duplicateCount = 1\<rparr>"
        "snd (insertOfertas ?batch sample_world)"] p run e
    by simp
qed

text \<open>
  Claim C6. With the connection active and the unique index in place:
  when no call to the driver fails for a reason of its own, \<^verbatim>\<open>insertOfertas\<close> returns on
  every batch, however many of its records violate the index: each record is attempted, in
  order; the records stored are those whose key the collection did not hold and no earlier
  record of the batch brought; all the others are counted as duplicates.
  When the call for some record fails with any other storage error, be it an error without
  code or a server error with a code other than 11000, that very error is thrown: the
  records after it are never attempted, and what the records before it stored stays stored.
  The errors that carry the code 11000 are the server errors of that code and no other.
\<close>

theorem insertOfertas_duplicates_skipped_other_errors_thrown:
  assumes "isConnectionActive w" and "db w" and "unique_oferta_emprendimiento w"
  shows "(storage_ok (length ofertas) w \<longrightarrow>
            insertOfertas ofertas w =
              (Inr \<lparr>insertedCount = int (length (newRecords (held_keys w) ofertas)),
                    duplicateCount = int (length ofertas) - int (length (newRecords (held_keys w) ofertas))\<rparr>,
               w\<lparr>ofertas_collection := ofertas_collection w @ newRecords (held_keys w) ofertas,
                 storage_script := drop (length ofertas) (storage_script w),
                 trace := trace w @ map DbInsertOne ofertas\<rparr>))
       \<and> (\<forall>pre x post e fs.
            code e \<noteq> Some 11000 \<and> ofertas = pre @ x # post
            \<and> storage_script w = replicate (length pre) None @ Some (as_failure e) # fs \<longrightarrow>
            insertOfertas ofertas w =
              (Inl e,
               w\<lparr>ofertas_collection := ofertas_collection w @ newRecords (held_keys w) pre,
                 storage_script := fs,
                 trace := trace w @ map DbInsertOne (pre @ [x])\<rparr>))
       \<and> (code err = Some 11000) = (\<exists>m. err = MongoServerError 11000 m)"
proof (intro conjI impI allI)
  show "(code err = Some 11000) = (\<exists>m. err = MongoServerError 11000 m)"
    by (cases err) auto
next
  assume ok: "storage_ok (length ofertas) w"
  show "insertOfertas ofertas w =
              (Inr \<lparr>insertedCount = int (length (newRecords (held_keys w) ofertas)),
                    duplicateCount = int (length ofertas) - int (length (newRecords (held_keys w) ofertas))\<rparr>,
               w\<lparr>ofertas_collection := ofertas_collection w @ newRecords (held_keys w) ofertas,
                 storage_script := drop (length ofertas) (storage_script w),
                 trace := trace w @ map DbInsertOne ofertas\<rparr>)"
  proof (cases ofertas)
    case Nil
    with assms show ?thesis by (simp add: insertOfertas_def)
  next
    case (Cons a list)
    with assms insertLoop_ok[OF assms(3) ok, of 0 0] show ?thesis
      by (simp add: insertOfertas_def getOfertasCollection_def)
  qed
next
  fix pre x post e fs
  assume a: "code e \<noteq> Some 11000 \<and> ofertas = pre @ x # post
            \<and> storage_script w = replicate (length pre) None @ Some (as_failure e) # fs"
  then have t: "thrown_error (as_failure e) = e" by (simp add: thrown_as_failure)
  from a assms insertLoop_first_failure[OF assms(3), of pre "as_failure e" fs x post 0 0]
  show "insertOfertas ofertas w =
              (Inl e,
               w\<lparr>ofertas_collection := ofertas_collection w @ newRecords (held_keys w) pre,
                 storage_script := fs,
                 trace := trace w @ map DbInsertOne (pre @ [x])\<rparr>)"
    by (simp add: insertOfertas_def getOfertasCollection_def t)
qed

text \<open>
  The collection holds the record of id 2. Of the batch of ids 1, 2, 3, the ids 1 and 3 are
  stored and id 2 is counted as a duplicate. When the server refuses the second record with
  the code 121 (a failed document validation), that error is thrown, the third record is
  never attempted and id 1 stays stored; likewise when the connection is lost, an error
  without code, at the first record.
\<close>

theorem insertOfertas_duplicates_skipped_other_errors_thrown_witness:
  "insertOfertas [sample_doc 1 ''a'' ''A'', sample_doc 2 ''b'' ''A'', sample_doc 3 ''c'' ''A'']
      (sample_world\<lparr>ofertas_collection := [sample_doc 2 ''z'' ''B'']\<rparr>)
     = (Inr \<lparr>insertedCount = 2, duplicateCount = 1\<rparr>,
        sample_world\<lparr>ofertas_collection :=
            [sample_doc 2 ''z'' ''B'', sample_doc 1 ''a'' ''A'', sample_doc 3 ''c'' ''A''],
          trace := [DbInsertOne (sample_doc 1 ''a'' ''A''), DbInsertOne (sample_doc 2 ''b'' ''A''),
                    DbInsertOne (sample_doc 3 ''c'' ''A'')]\<rparr>)
   \<and> insertOfertas [sample_doc 1 ''a'' ''A'', sample_doc 2 ''b'' ''A'', sample_doc 3 ''c'' ''A'']
      (sample_world\<lparr>storage_script :=
         [None, Some (as_failure (MongoServerError 121 ''Document failed validation''))]\<rparr>)
     = (Inl (MongoServerError 121 ''Document failed validation''),
        sample_world\<lparr>ofertas_collection := [sample_doc 1 ''a'' ''A''],
          trace := [DbInsertOne (sample_doc 1 ''a'' ''A''), DbInsertOne (sample_doc 2 ''b'' ''A'')]\<rparr>)
   \<and> insertOfertas [sample_doc 1 ''a'' ''A'', sample_doc 2 ''b'' ''A'', sample_doc 3 ''c'' ''A'']
      (sample_world\<lparr>storage_script := [Some (as_failure (Error ''connection lost''))]\<rparr>)
     = (Inl (Error ''connection lost''),
        sample_world\<lparr>trace := [DbInsertOne (sample_doc 1 ''a'' ''A'')]\<rparr>)"
proof -
  let ?batch = "[sample_doc 1 ''a'' ''A'', sample_doc 2 ''b'' ''A'', sample_doc 3 ''c'' ''A'']"
  let ?w1 = "sample_world\<lparr>ofertas_collection := [sample_doc 2 ''z'' ''B'']\<rparr>"
  let ?e2 = "MongoServerError 121 ''Document failed validation''"
  let ?w2 = "sample_world\<lparr>storage_script := [None, Some (as_failure ?e2)]\<rparr>"
  let ?e3 = "Error ''connection lost''"
  let ?w3 = "sample_world\<lparr>storage_script := [Some (as_failure ?e3)]\<rparr>"
  have a: "insertOfertas ?batch ?w1
     = (Inr \<lparr>insertedCount = 2, duplicateCount = 1\<rparr>,
        sample_world\<lparr>ofertas_collection :=
            [sample_doc 2 ''z'' ''B'', sample_doc 1 ''a'' ''A'', sample_doc 3 ''c'' ''A''],
          trace := [DbInsertOne (sample_doc 1 ''a'' ''A''), DbInsertOne (sample_doc 2 ''b'' ''A''),
                    DbInsertOne (sample_doc 3 ''c'' ''A'')]\<rparr>)"
    using insertOfertas_duplicates_skipped_other_errors_thrown[of ?w1 ?batch]
    by (simp add: sample_world_fields isConnectionActive_def storage_ok_def held_keys_def
        sample_doc_fields)
  have b: "insertOfertas ?batch ?w2
     = (Inl ?e2,
        sample_world\<lparr>ofertas_collection := [sample_doc 1 ''a'' ''A''],
          trace := [DbInsertOne (sample_doc 1 ''a'' ''A''), DbInsertOne (sample_doc 2 ''b'' ''A'')]\<rparr>)"
  proof -
    have "code ?e2 \<noteq> Some 11000
        \<and> ?batch = [sample_doc 1 ''a'' ''A''] @ sample_doc 2 ''b'' ''A'' # [sample_doc 3 ''c'' ''A'']
        \<and> storage_script ?w2 = replicate (length [sample_doc 1 ''a'' ''A'']) None @ Some (as_failure ?e2) # []"
      by simp
    moreover have "isConnectionActive ?w2" "db ?w2" "unique_oferta_emprendimiento ?w2"
      by (simp_all add: sample_world_fields isConnectionActive_def)
    ultimately have "insertOfertas ?batch ?w2 =
              (Inl ?e2,
               ?w2\<lparr>ofertas_collection := ofertas_collection ?w2 @ newRecords (held_keys ?w2) [sample_doc 1 ''a'' ''A''],
                 storage_script := [],
                 trace := trace ?w2 @ map DbInsertOne ([sample_doc 1 ''a'' ''A''] @ [sample_doc 2 ''b'' ''A''])\<rparr>)"
      using insertOfertas_duplicates_skipped_other_errors_thrown[of ?w2 ?batch] by blast
    then show ?thesis
      by (simp add: sample_world_fields held_keys_def sample_doc_fields sample_world_def)
  qed
  have c: "insertOfertas ?batch ?w3
     = (Inl ?e3, sample_world\<lparr>trace := [DbInsertOne (sample_doc 1 ''a'' ''A'')]\<rparr>)"
  proof -
    have "code ?e3 \<noteq> Some 11000
        \<and> ?batch = [] @ sample_doc 1 ''a'' ''A'' # [sample_doc 2 ''b'' ''A'', sample_doc 3 ''c'' ''A'']
        \<and> storage_script ?w3 = replicate (length ([]::OfertaDocument list)) None @ Some (as_failure ?e3) # []"
      by simp
    moreover have "isConnectionActive ?w3" "db ?w3" "unique_oferta_emprendimiento ?w3"
      by (simp_all add: sample_world_fields isConnectionActive_def)
    ultimately have "insertOfertas ?batch ?w3 =
              (Inl ?e3,
               ?w3\<lparr>ofertas_collection := ofertas_collection ?w3 @ newRecords (held_keys ?w3) [],
                 storage_script := [],
                 trace := trace ?w3 @ map DbInsertOne ([] @ [sample_doc 1 ''a'' ''A''])\<rparr>)"
      using insertOfertas_duplicates_skipped_other_errors_thrown[of ?w3 ?batch] by blast
    then show ?thesis
      by (simp add: sample_world_fields sample_world_def)
  qed
  from a b c show ?thesis by blast
qed

text \<open>
  Claim C5. With the unique index in place, when \<^verbatim>\<open>insertOfertas\<close> has returned on a batch,
  applying it again to the same batch leaves the collection as the first application left
  it; when the second application returns, it reports no record inserted and every record
  of the batch as a duplicate, and it does return when no call to the driver fails for a
  reason of its own. The first application keeps the keys of the collection pairwise
  distinct.
\<close>

theorem insertOfertas_idempotent:
  assumes uniq: "unique_oferta_emprendimiento w"
    and first: "insertOfertas ofertas w = (Inr res1, w1)"
  shows "ofertas_collection (snd (insertOfertas ofertas w1)) = ofertas_collection w1
       \<and> (\<forall>res2. fst (insertOfertas ofertas w1) = Inr res2 \<longrightarrow>
             res2 = \<lparr>insertedCount = 0, duplicateCount = int (length ofertas)\<rparr>)
       \<and> (storage_ok (length ofertas) w1 \<longrightarrow>
             fst (insertOfertas ofertas w1) = Inr \<lparr>insertedCount = 0, duplicateCount = int (length ofertas)\<rparr>)
       \<and> (distinct (map index_key (ofertas_collection w)) \<longrightarrow>
             distinct (map index_key (ofertas_collection w1)))"
proof (cases ofertas)
  case Nil
  with first show ?thesis by (auto simp: insertOfertas_def split: if_splits)
next
  case (Cons a list)
  from first Cons have act: "isConnectionActive w" and dbw: "db w"
    and loop: "insertLoop ofertas 0 0 w = (Inr res1, w1)"
    by (auto simp: insertOfertas_def getOfertasCollection_def split: if_splits)
  have ok: "storage_ok (length ofertas) w" by (rule insertLoop_Inr_storage_ok[OF loop])
  have w1: "w1 = w\<lparr>ofertas_collection := ofertas_collection w @ newRecords (held_keys w) ofertas,
                 storage_script := drop (length ofertas) (storage_script w),
                 trace := trace w @ map DbInsertOne ofertas\<rparr>"
    using insertLoop_ok[OF uniq ok, of 0 0] loop by simp
  have act1: "isConnectionActive w1" and db1: "db w1" and uniq1: "unique_oferta_emprendimiento w1"
    using act dbw uniq by (simp_all add: w1 isConnectionActive_def)
  have coll1: "ofertas_collection w1 = ofertas_collection w @ newRecords (held_keys w) ofertas"
    by (simp add: w1)
  have held1: "index_key ` set ofertas \<subseteq> held_keys w1"
    unfolding held_keys_def coll1 using newRecords_keys[of "held_keys w" ofertas]
    by (auto simp: held_keys_def image_Un)
  have second: "insertOfertas ofertas w1 = insertLoop ofertas 0 0 w1"
    using act1 db1 Cons by (simp add: insertOfertas_def getOfertasCollection_def)
  have p12: "ofertas_collection (snd (insertOfertas ofertas w1)) = ofertas_collection w1
       \<and> (\<forall>res2. fst (insertOfertas ofertas w1) = Inr res2 \<longrightarrow>
             res2 = \<lparr>insertedCount = 0, duplicateCount = int (length ofertas)\<rparr>)"
    using insertLoop_all_held[OF uniq1 held1, of 0 0] second by simp
  have p3: "storage_ok (length ofertas) w1 \<longrightarrow>
             fst (insertOfertas ofertas w1) = Inr \<lparr>insertedCount = 0, duplicateCount = int (length ofertas)\<rparr>"
  proof
    assume "storage_ok (length ofertas) w1"
    from insertLoop_ok[OF uniq1 this, of 0 0] newRecords_held[OF held1] second
    show "fst (insertOfertas ofertas w1) = Inr \<lparr>insertedCount = 0, duplicateCount = int (length ofertas)\<rparr>"
      by simp
  qed
  have p4: "distinct (map index_key (ofertas_collection w)) \<longrightarrow>
             distinct (map index_key (ofertas_collection w1))"
    using newRecords_distinct[of "held_keys w" ofertas] newRecords_keys[of "held_keys w" ofertas]
    by (auto simp: coll1 held_keys_def)
  from p12 p3 p4 show ?thesis by blast
qed

text \<open>
  The batch of ids 1, 2, 3 on an empty collection: the first application stores three
  records, the second stores none and counts three duplicates.
\<close>

theorem insertOfertas_idempotent_witness:
  "fst (insertOfertas [sample_doc 1 ''a'' ''A'', sample_doc 2 ''b'' ''A'', sample_doc 3 ''c'' ''A''] sample_world)
     = Inr \<lparr>insertedCount = 3, duplicateCount = 0\<rparr>
   \<and> fst (insertOfertas [sample_doc 1 ''a'' ''A'', sample_doc 2 ''b'' ''A'', sample_doc 3 ''c'' ''A'']
        (snd (insertOfertas [sample_doc 1 ''a'' ''A'', sample_doc 2 ''b'' ''A'', sample_doc 3 ''c'' ''A''] sample_world)))
     = Inr \<lparr>insertedCount = 0, duplicateCount = 3\<rparr>
   \<and> ofertas_collection (snd (insertOfertas [sample_doc 1 ''a'' ''A'', sample_doc 2 ''b'' ''A'', sample_doc 3 ''c'' ''A'']
        (snd (insertOfertas [sample_doc 1 ''a'' ''A'', sample_doc 2 ''b'' ''A'', sample_doc 3 ''c'' ''A''] sample_world))))
     = [sample_doc 1 ''a'' ''A'', sample_doc 2 ''b'' ''A'', sample_doc 3 ''c'' ''A'']"
proof -
  let ?batch = "[sample_doc 1 ''a'' ''A'', sample_doc 2 ''b'' ''A'', sample_doc 3 ''c'' ''A'']"
  let ?w1 = "sample_world\<lparr>ofertas_collection := ?batch, trace := map DbInsertOne ?batch\<rparr>"
  have ok: "storage_ok (length ?batch) sample_world"
    by (simp add: storage_ok_def sample_world_fields)
  have first: "insertOfertas ?batch sample_world = (Inr \<lparr>insertedCount = 3, duplicateCount = 0\<rparr>, ?w1)"
    using insertLoop_ok[OF sample_world_fields(6) ok, of 0 0]
    by (simp add: insertOfertas_def getOfertasCollection_def sample_world_fields held_keys_def
        sample_doc_fields)
  have ok1: "storage_ok (length ?batch) ?w1"
    by (simp add: storage_ok_def sample_world_fields)
  note th = insertOfertas_idempotent[OF sample_world_fields(6) first]
  from th have c1: "ofertas_collection (snd (insertOfertas ?batch ?w1)) = ofertas_collection ?w1"
    by (rule conjunct1)
  from th ok1 have c3: "fst (insertOfertas ?batch ?w1) = Inr \<lparr>insertedCount = 0, duplicateCount = int (length ?batch)\<rparr>"
    by blast
  show ?thesis using c1 c3 by (simp add: first)
qed

section \<open>The paginated fetcher\<close>

lemma fetchPage_script:
  "fetchPage svc params w =
     (case http_get_script w of
        [] \<Rightarrow> (Inl (Error ''Network Error''), w\<lparr>trace := trace w @ [HttpGet (baseUrl svc @ ''/compra-agil'') params]\<rparr>)
      | r # rs \<Rightarrow> (pageResult r,
          w\<lparr>http_get_script := rs, trace := trace w @ [HttpGet (baseUrl svc @ ''/compra-agil'') params]\<rparr>))"
  by (simp add: fetchPage_def axios_get_def log_event_def pageResult_def checkBody_def split: list.splits)

lemma pagesLoop_all_succeed:
  "http_get_script w = rs @ rest \<Longrightarrow> map pageResult rs = map Inr ps \<Longrightarrow>
   int (length ps) = totalPages + 1 - currentPage \<Longrightarrow>
   pagesLoop svc fp currentPage totalPages acc w =
     (None, acc @ concat (map resultados ps),
      w\<lparr>clock := clock w + length ps * delayBetweenRequests svc,
        http_get_script := rest,
        trace := trace w @ concat (map (page_events svc fp) [currentPage..totalPages])\<rparr>)"
proof (induction ps arbitrary: rs currentPage acc w)
  case Nil
  then have "\<not> currentPage \<le> totalPages" and "rs = []" by auto
  with Nil show ?case by (subst pagesLoop.simps) simp
next
  case (Cons p ps)
  from Cons.prems(2) obtain r rs' where rs: "rs = r # rs'" and r: "pageResult r = Inr p"
    and rs': "map pageResult rs' = map Inr ps" by (cases rs) auto
  from Cons.prems(3) have le: "currentPage \<le> totalPages"
    and len: "int (length ps) = totalPages + 1 - (currentPage + 1)" by auto
  let ?w1 = "delay (delayBetweenRequests svc) w"
  let ?w2 = "?w1\<lparr>http_get_script := rs' @ rest,
        trace := trace ?w1 @ [HttpGet (baseUrl svc @ ''/compra-agil'') (fp\<lparr>page_number := currentPage\<rparr>)]\<rparr>"
  have f: "fetchPage svc (fp\<lparr>page_number := currentPage\<rparr>) ?w1 = (Inr p, ?w2)"
    using Cons.prems(1) rs r by (simp add: fetchPage_script delay_def log_event_def)
  have s2: "http_get_script ?w2 = rs' @ rest" by simp
  show ?case
    apply (subst pagesLoop.simps)
    using le f Cons.IH[OF s2 rs' len, of "acc @ resultados p"]
    by (simp add: upto_rec1[OF le] page_events_def[of svc fp currentPage] delay_def log_event_def add.assoc)
qed

lemma pagesLoop_failure:
  "http_get_script w = rs @ bad # rest \<Longrightarrow> map pageResult rs = map Inr ps \<Longrightarrow>
   pageResult bad = Inl e \<Longrightarrow> currentPage + int (length ps) \<le> totalPages \<Longrightarrow>
   pagesLoop svc fp currentPage totalPages acc w =
     (Some e, acc @ concat (map resultados ps),
      w\<lparr>clock := clock w + (length ps + 1) * delayBetweenRequests svc,
        http_get_script := rest,
        trace := trace w @ concat (map (page_events svc fp) [currentPage..currentPage + int (length ps)])\<rparr>)"
proof (induction ps arbitrary: rs currentPage acc w)
  case Nil
  then have le: "currentPage \<le> totalPages" and rs: "rs = []" by auto
  let ?w1 = "delay (delayBetweenRequests svc) w"
  have f: "fetchPage svc (fp\<lparr>page_number := currentPage\<rparr>) ?w1 =
     (Inl e, ?w1\<lparr>http_get_script := rest,
        trace := trace ?w1 @ [HttpGet (baseUrl svc @ ''/compra-agil'') (fp\<lparr>page_number := currentPage\<rparr>)]\<rparr>)"
    using Nil.prems(1,3) rs by (simp add: fetchPage_script delay_def log_event_def)
  show ?case
    apply (subst pagesLoop.simps)
    using le f by (simp add: page_events_def[of svc fp currentPage] delay_def log_event_def)
next
  case (Cons p ps)
  from Cons.prems(2) obtain r rs' where rs: "rs = r # rs'" and r: "pageResult r = Inr p"
    and rs': "map pageResult rs' = map Inr ps" by (cases rs) auto
  from Cons.prems(4) have le: "currentPage \<le> totalPages"
    and le': "currentPage \<le> currentPage + int (length (p # ps))"
    and len: "(currentPage + 1) + int (length ps) \<le> totalPages" by auto
  let ?w1 = "delay (delayBetweenRequests svc) w"
  let ?w2 = "?w1\<lparr>http_get_script := rs' @ bad # rest,
        trace := trace ?w1 @ [HttpGet (baseUrl svc @ ''/compra-agil'') (fp\<lparr>page_number := currentPage\<rparr>)]\<rparr>"
  have f: "fetchPage svc (fp\<lparr>page_number := currentPage\<rparr>) ?w1 = (Inr p, ?w2)"
    using Cons.prems(1) rs r by (simp add: fetchPage_script delay_def log_event_def)
  have s2: "http_get_script ?w2 = rs' @ bad # rest" by simp
  have up: "[currentPage..currentPage + (1 + int (length ps))] =
      currentPage # [currentPage + 1..currentPage + (1 + int (length ps))]"
    by (rule upto_rec1) simp
  show ?case
    apply (subst pagesLoop.simps)
    using le f Cons.IH[OF s2 rs' Cons.prems(3) len, of "acc @ resultados p"]
    by (simp add: up page_events_def[of svc fp currentPage] delay_def log_event_def add.assoc)
qed

lemma page_events_fun:
  "page_events svc fp =
     (\<lambda>n. [Delay (delayBetweenRequests svc),
           HttpGet (baseUrl svc @ ''/compra-agil'') (fp\<lparr>page_number := n\<rparr>)])"
  by (rule ext) (simp add: page_events_def)

lemma firstPageParams_fields:
  "firstPageParams baseParams =
     \<lparr>date_from = (case p_date_from baseParams of None \<Rightarrow> [] | Some s \<Rightarrow> s),
      date_to = (case p_date_to baseParams of None \<Rightarrow> [] | Some s \<Rightarrow> s),
      order_by = (case p_order_by baseParams of None \<Rightarrow> ''recent''
                  | Some s \<Rightarrow> if s = [] then ''recent'' else s),
      page_number = 1,
      status = (case p_status baseParams of None \<Rightarrow> 2 | Some n \<Rightarrow> if n = 0 then 2 else n),
      category = p_category baseParams,
      region = p_region baseParams,
      keywords_param = p_keywords baseParams\<rparr>"
  by (simp add: firstPageParams_def str_or_def num_or_def split: option.splits)

lemma pageResult_cases:
  "pageResult (Inl err) = Inl err"
  "st < 200 \<or> 300 \<le> st \<Longrightarrow> pageResult (Inr (st, body)) = Inl (AxiosError st)"
  "200 \<le> st \<Longrightarrow> st < 300 \<Longrightarrow> success body \<noteq> ''OK'' \<Longrightarrow>
     pageResult (Inr (st, body)) = Inl (Error (api_error_prefix @ success body))"
  "200 \<le> st \<Longrightarrow> st < 300 \<Longrightarrow> success body = ''OK'' \<Longrightarrow> payload body = None \<Longrightarrow>
     pageResult (Inr (st, body)) = Inl (Error ''TypeError'')"
  "200 \<le> st \<Longrightarrow> st < 300 \<Longrightarrow> success body = ''OK'' \<Longrightarrow> payload body = Some p \<Longrightarrow>
     pageResult (Inr (st, body)) = Inr p"
  by (auto simp: pageResult_def accepted_def checkBody_def validateStatus_def)

text \<open>
  Claim C7. When the script answers the next \<open>k \<ge> 1\<close> requests with pages that
  \<^verbatim>\<open>fetchPage\<close> accepts (a 2xx status, \<^verbatim>\<open>success\<close> equal to \<^verbatim>\<open>"OK"\<close>, a payload), and the first
  of them reports \<^verbatim>\<open>pageCount = k\<close>, then \<^verbatim>\<open>getAllOfertas\<close> returns the records of the \<open>k\<close>
  pages concatenated in page order, and what it did is exactly: the request of page 1, then
  for each of the pages 2 to \<open>k\<close>, in order, the configured delay followed by the request of
  that page. It consumed exactly \<open>k\<close> answers of the script. Every request goes to
  \<^verbatim>\<open>baseUrl/compra-agil\<close> with the dates and filters of the query (\<^verbatim>\<open>order_by\<close> defaulting to
  \<^verbatim>\<open>"recent"\<close> and \<^verbatim>\<open>status\<close> to 2) and differs from the others in its page number only; the
  first one asks for page number 1.
\<close>

theorem getAllOfertas_all_pages:
  assumes "http_get_script w = rs @ rest"
    and "map pageResult rs = map Inr ps"
    and "ps \<noteq> []"
    and "pageCount (hd ps) = int (length ps)"
  shows "getAllOfertas svc baseParams w =
     (Inr (concat (map resultados ps)),
      w\<lparr>clock := clock w + (length ps - 1) * delayBetweenRequests svc,
        http_get_script := rest,
        trace := trace w @ HttpGet (baseUrl svc @ ''/compra-agil'') (firstPageParams baseParams)
                   # concat (map (\<lambda>n. [Delay (delayBetweenRequests svc),
                                      HttpGet (baseUrl svc @ ''/compra-agil'')
                                        ((firstPageParams baseParams)\<lparr>page_number := n\<rparr>)])
                              [2..int (length ps)])\<rparr>)
   \<and> firstPageParams baseParams =
       \<lparr>date_from = (case p_date_from baseParams of None \<Rightarrow> [] | Some s \<Rightarrow> s),
        date_to = (case p_date_to baseParams of None \<Rightarrow> [] | Some s \<Rightarrow> s),
        order_by = (case p_order_by baseParams of None \<Rightarrow> ''recent''
                    | Some s \<Rightarrow> if s = [] then ''recent'' else s),
        page_number = 1,
        status = (case p_status baseParams of None \<Rightarrow> 2 | Some n \<Rightarrow> if n = 0 then 2 else n),
        category = p_category baseParams,
        region = p_region baseParams,
        keywords_param = p_keywords baseParams\<rparr>
   \<and> (200 \<le> st \<and> st < 300 \<and> success body = ''OK'' \<and> payload body = Some p \<longrightarrow>
        pageResult (Inr (st, body)) = Inr p)"
proof -
  from assms(3) obtain p' ps' where ps: "ps = p' # ps'" by (cases ps) auto
  with assms(2) obtain r rs' where rs: "rs = r # rs'" and r: "pageResult r = Inr p'"
    and rs': "map pageResult rs' = map Inr ps'" by (cases rs) auto
  let ?fp = "firstPageParams baseParams"
  let ?w1 = "w\<lparr>http_get_script := rs' @ rest,
        trace := trace w @ [HttpGet (baseUrl svc @ ''/compra-agil'') ?fp]\<rparr>"
  have first: "fetchPage svc ?fp w = (Inr p', ?w1)"
    using assms(1) rs r by (simp add: fetchPage_script)
  have s1: "http_get_script ?w1 = rs' @ rest" by simp
  have len: "int (length ps') = pageCount p' + 1 - 2" using assms(4) ps by simp
  have pc: "pageCount p' = int (length ps)" using assms(4) ps by simp
  have run: "getAllOfertas svc baseParams w =
     (Inr (concat (map resultados ps)),
      w\<lparr>clock := clock w + (length ps - 1) * delayBetweenRequests svc,
        http_get_script := rest,
        trace := trace w @ HttpGet (baseUrl svc @ ''/compra-agil'') ?fp
                   # concat (map (page_events svc ?fp) [2..int (length ps)])\<rparr>)"
    using first pagesLoop_all_succeed[OF s1 rs' len, of svc ?fp "resultados p'"]
    by (simp add: getAllOfertas_def ps pc)
  have pr: "200 \<le> st \<and> st < 300 \<and> success body = ''OK'' \<and> payload body = Some p \<longrightarrow>
        pageResult (Inr (st, body)) = Inr p"
    using pageResult_cases(5)[of st body p] by blast
  show ?thesis
    by (rule conjI[OF run[unfolded page_events_fun] conjI[OF firstPageParams_fields pr]])
qed

text \<open>
  The scenario of the specification: the first page reports three pages; three requests
  for the day 2025-09-24 and the category 25101500, with the page numbers 1, 2 and 3, the
  second and the third after the delay of 2000 ms, and the three pages in page order.
\<close>

theorem getAllOfertas_all_pages_witness:
  "fst (getAllOfertas sample_api sample_params
      (sample_world\<lparr>http_get_script :=
         [sample_page 3 1 [sample_oferta 1 ''a''], sample_page 3 2 [sample_oferta 2 ''b''],
          sample_page 3 3 [sample_oferta 3 ''c'']]\<rparr>))
     = Inr [sample_oferta 1 ''a'', sample_oferta 2 ''b'', sample_oferta 3 ''c'']
   \<and> trace (snd (getAllOfertas sample_api sample_params
      (sample_world\<lparr>http_get_script :=
         [sample_page 3 1 [sample_oferta 1 ''a''], sample_page 3 2 [sample_oferta 2 ''b''],
          sample_page 3 3 [sample_oferta 3 ''c'']]\<rparr>)))
     = [HttpGet ''https://api.example/compra-agil''
          \<lparr>date_from = ''2025-09-24'', date_to = ''2025-09-24'', order_by = ''recent'',
           page_number = 1, status = 2, category = Some ''25101500'', region = None,
           keywords_param = None\<rparr>,
        Delay 2000,
        HttpGet ''https://api.example/compra-agil''
          \<lparr>date_from = ''2025-09-24'', date_to = ''2025-09-24'', order_by = ''recent'',
           page_number = 2, status = 2, category = Some ''25101500'', region = None,
           keywords_param = None\<rparr>,
        Delay 2000,
        HttpGet ''https://api.example/compra-agil''
          \<lparr>date_from = ''2025-09-24'', date_to = ''2025-09-24'', order_by = ''recent'',
           page_number = 3, status = 2, category = Some ''25101500'', region = None,
           keywords_param = None\<rparr>]
   \<and> clock (snd (getAllOfertas sample_api sample_params
      (sample_world\<lparr>http_get_script :=
         [sample_page 3 1 [sample_oferta 1 ''a''], sample_page 3 2 [sample_oferta 2 ''b''],
          sample_page 3 3 [sample_oferta 3 ''c'']]\<rparr>))) = 4000"
proof -
  have u: "[2..3] = [2, 3::int]" by (simp add: upto.simps)
  have fp: "firstPageParams sample_params =
      \<lparr>date_from = ''2025-09-24'', date_to = ''2025-09-24'', order_by = ''recent'',
       page_number = 1, status = 2, category = Some ''25101500'', region = None,
       keywords_param = None\<rparr>"
    by (simp add: firstPageParams_def sample_params_def str_or_def num_or_def)
  have h: "map pageResult
        [sample_page 3 1 [sample_oferta 1 ''a''], sample_page 3 2 [sample_oferta 2 ''b''],
          sample_page 3 3 [sample_oferta 3 ''c'']]
      = map Inr [sample_payload 3 1 [sample_oferta 1 ''a''], sample_payload 3 2 [sample_oferta 2 ''b''],
          sample_payload 3 3 [sample_oferta 3 ''c'']]"
    by (simp add: sample_page_result)
  have "getAllOfertas sample_api sample_params
      (sample_world\<lparr>http_get_script :=
         [sample_page 3 1 [sample_oferta 1 ''a''], sample_page 3 2 [sample_oferta 2 ''b''],
          sample_page 3 3 [sample_oferta 3 ''c'']]\<rparr>) =
     (Inr (concat (map resultados [sample_payload 3 1 [sample_oferta 1 ''a''], sample_payload 3 2 [sample_oferta 2 ''b''],
          sample_payload 3 3 [sample_oferta 3 ''c'']])),
      (sample_world\<lparr>http_get_script :=
         [sample_page 3 1 [sample_oferta 1 ''a''], sample_page 3 2 [sample_oferta 2 ''b''],
          sample_page 3 3 [sample_oferta 3 ''c'']]\<rparr>)
       \<lparr>clock := clock (sample_world\<lparr>http_get_script :=
         [sample_page 3 1 [sample_oferta 1 ''a''], sample_page 3 2 [sample_oferta 2 ''b''],
          sample_page 3 3 [sample_oferta 3 ''c'']]\<rparr>)
          + (length [sample_payload 3 1 [sample_oferta 1 ''a''], sample_payload 3 2 [sample_oferta 2 ''b''],
          sample_payload 3 3 [sample_oferta 3 ''c'']] - 1) * delayBetweenRequests sample_api,
        http_get_script := [],
        trace := trace (sample_world\<lparr>http_get_script :=
         [sample_page 3 1 [sample_oferta 1 ''a''], sample_page 3 2 [sample_oferta 2 ''b''],
          sample_page 3 3 [sample_oferta 3 ''c'']]\<rparr>)
          @ HttpGet (baseUrl sample_api @ ''/compra-agil'') (firstPageParams sample_params)
                   # concat (map (\<lambda>n. [Delay (delayBetweenRequests sample_api),
                                      HttpGet (baseUrl sample_api @ ''/compra-agil'')
                                        ((firstPageParams sample_params)\<lparr>page_number := n\<rparr>)])
                              [2..int (length [sample_payload 3 1 [sample_oferta 1 ''a''], sample_payload 3 2 [sample_oferta 2 ''b''],
          sample_payload 3 3 [sample_oferta 3 ''c'']])])\<rparr>)"
    by (rule getAllOfertas_all_pages
        [of _ "[sample_page 3 1 [sample_oferta 1 ''a''], sample_page 3 2 [sample_oferta 2 ''b''],
          sample_page 3 3 [sample_oferta 3 ''c'']]" "[]", OF _ h, THEN conjunct1])
      (simp_all add: sample_payload_fields)
  then show ?thesis
    by (simp add: sample_payload_fields sample_api_fields sample_world_fields u fp)
qed

text \<open>
  Claim C3. A request fails when the transport fails or times out, when the status is
  outside 2xx, when \<^verbatim>\<open>success\<close> is not \<^verbatim>\<open>"OK"\<close>, and when the body has no payload. When the
  pages before the failing request were accepted and the next request fails, with that
  request really due (it is the first one, or the first page announced more pages than were
  fetched), then \<^verbatim>\<open>getAllOfertas\<close> makes no further request; it returns the records
  accumulated so far when there is at least one, and throws the error of the failing request
  when there is none.
\<close>

theorem getAllOfertas_page_failure:
  assumes "http_get_script w = rs @ bad # rest"
    and "map pageResult rs = map Inr ps"
    and "pageResult bad = Inl e"
    and "ps = [] \<or> int (length ps) < pageCount (hd ps)"
  shows "getAllOfertas svc baseParams w =
     (if concat (map resultados ps) \<noteq> [] then Inr (concat (map resultados ps)) else Inl e,
      w\<lparr>clock := clock w + length ps * delayBetweenRequests svc,
        http_get_script := rest,
        trace := trace w @ HttpGet (baseUrl svc @ ''/compra-agil'') (firstPageParams baseParams)
                   # concat (map (\<lambda>n. [Delay (delayBetweenRequests svc),
                                      HttpGet (baseUrl svc @ ''/compra-agil'')
                                        ((firstPageParams baseParams)\<lparr>page_number := n\<rparr>)])
                              [2..int (length ps) + 1])\<rparr>)
   \<and> pageResult (Inl err) = Inl err
   \<and> (st < 200 \<or> 300 \<le> st \<longrightarrow> pageResult (Inr (st, body)) = Inl (AxiosError st))
   \<and> (200 \<le> st \<and> st < 300 \<and> success body \<noteq> ''OK'' \<longrightarrow>
        pageResult (Inr (st, body)) = Inl (Error (api_error_prefix @ success body)))
   \<and> (200 \<le> st \<and> st < 300 \<and> success body = ''OK'' \<and> payload body = None \<longrightarrow>
        pageResult (Inr (st, body)) = Inl (Error ''TypeError''))"
proof -
  have run: "getAllOfertas svc baseParams w =
     (if concat (map resultados ps) \<noteq> [] then Inr (concat (map resultados ps)) else Inl e,
      w\<lparr>clock := clock w + length ps * delayBetweenRequests svc,
        http_get_script := rest,
        trace := trace w @ HttpGet (baseUrl svc @ ''/compra-agil'') (firstPageParams baseParams)
                   # concat (map (page_events svc (firstPageParams baseParams)) [2..int (length ps) + 1])\<rparr>)"
  proof (cases ps)
    case Nil
    with assms(2) have rs: "rs = []" by simp
    have "fetchPage svc (firstPageParams baseParams) w =
        (Inl e, w\<lparr>http_get_script := rest,
          trace := trace w @ [HttpGet (baseUrl svc @ ''/compra-agil'') (firstPageParams baseParams)]\<rparr>)"
      using assms(1,3) rs by (simp add: fetchPage_script)
    then show ?thesis using Nil by (simp add: getAllOfertas_def)
  next
    case (Cons p ps')
    with assms(2) obtain r rs' where rs: "rs = r # rs'" and r: "pageResult r = Inr p"
      and rs': "map pageResult rs' = map Inr ps'" by (cases rs) auto
    let ?fp = "firstPageParams baseParams"
    let ?w1 = "w\<lparr>http_get_script := rs' @ bad # rest,
          trace := trace w @ [HttpGet (baseUrl svc @ ''/compra-agil'') ?fp]\<rparr>"
    have first: "fetchPage svc ?fp w = (Inr p, ?w1)"
      using assms(1) rs r by (simp add: fetchPage_script)
    have s1: "http_get_script ?w1 = rs' @ bad # rest" by simp
    have due: "2 + int (length ps') \<le> pageCount p" using assms(4) Cons by simp
    have up: "2 + int (length ps') = int (length ps) + 1" using Cons by simp
    show ?thesis
      using first pagesLoop_failure[OF s1 rs' assms(3) due, of svc ?fp "resultados p"]
      by (simp add: getAllOfertas_def Cons up[simplified Cons] add.commute)
  qed
  have k1: "pageResult (Inl err) = Inl err" by (rule pageResult_cases(1))
  have k2: "st < 200 \<or> 300 \<le> st \<longrightarrow> pageResult (Inr (st, body)) = Inl (AxiosError st)"
    using pageResult_cases(2)[of st body] by blast
  have k3: "200 \<le> st \<and> st < 300 \<and> success body \<noteq> ''OK'' \<longrightarrow>
        pageResult (Inr (st, body)) = Inl (Error (api_error_prefix @ success body))"
    using pageResult_cases(3)[of st body] by blast
  have k4: "200 \<le> st \<and> st < 300 \<and> success body = ''OK'' \<and> payload body = None \<longrightarrow>
        pageResult (Inr (st, body)) = Inl (Error ''TypeError'')"
    using pageResult_cases(4)[of st body] by blast
  show ?thesis
    by (rule conjI[OF run[unfolded page_events_fun] conjI[OF k1 conjI[OF k2 conjI[OF k3 k4]]]])
qed

text \<open>
  The scenario of the specification: page 2 of 3 fails after page 1 succeeded; page 1's
  record is returned and page 3 is never requested, whether page 2 times out, is answered
  with the status 503, with a \<^verbatim>\<open>success\<close> other than \<^verbatim>\<open>"OK"\<close>, or with a body without payload.
  When page 1 itself times out, the error is thrown.
\<close>

theorem getAllOfertas_page_failure_witness:
  "getAllOfertas sample_api sample_params
      (sample_world\<lparr>http_get_script :=
         [sample_page 3 1 [sample_oferta 1 ''a''], Inl (Error ''timeout of 30000ms exceeded''),
          sample_page 3 3 [sample_oferta 3 ''c'']]\<rparr>)
     = (Inr [sample_oferta 1 ''a''],
        sample_world\<lparr>clock := 2000,
          http_get_script := [sample_page 3 3 [sample_oferta 3 ''c'']],
          trace :=
            [HttpGet ''https://api.example/compra-agil'' (firstPageParams sample_params),
             Delay 2000,
             HttpGet ''https://api.example/compra-agil''
               ((firstPageParams sample_params)\<lparr>page_number := 2\<rparr>)]\<rparr>)
   \<and> fst (getAllOfertas sample_api sample_params
      (sample_world\<lparr>http_get_script :=
         [sample_page 3 1 [sample_oferta 1 ''a''],
          Inr (503, \<lparr>success = ''OK'', payload = Some (sample_payload 3 2 [sample_oferta 2 ''b''])\<rparr>),
          sample_page 3 3 [sample_oferta 3 ''c'']]\<rparr>))
     = Inr [sample_oferta 1 ''a'']
   \<and> fst (getAllOfertas sample_api sample_params
      (sample_world\<lparr>http_get_script :=
         [sample_page 3 1 [sample_oferta 1 ''a''],
          Inr (200, \<lparr>success = ''ERROR'', payload = Some (sample_payload 3 2 [sample_oferta 2 ''b''])\<rparr>),
          sample_page 3 3 [sample_oferta 3 ''c'']]\<rparr>))
     = Inr [sample_oferta 1 ''a'']
   \<and> fst (getAllOfertas sample_api sample_params
      (sample_world\<lparr>http_get_script :=
         [sample_page 3 1 [sample_oferta 1 ''a''],
          Inr (200, \<lparr>success = ''OK'', payload = None\<rparr>),
          sample_page 3 3 [sample_oferta 3 ''c'']]\<rparr>))
     = Inr [sample_oferta 1 ''a'']
   \<and> fst (getAllOfertas sample_api sample_params
      (sample_world\<lparr>http_get_script :=
         [Inr (200, \<lparr>success = ''ERROR'', payload = Some (sample_payload 3 1 [sample_oferta 1 ''a''])\<rparr>)]\<rparr>))
     = Inl (Error (api_error_prefix @ ''ERROR''))
   \<and> fst (getAllOfertas sample_api sample_params
      (sample_world\<lparr>http_get_script := [Inl (Error ''timeout of 30000ms exceeded'')]\<rparr>))
     = Inl (Error ''timeout of 30000ms exceeded'')"
proof -
  let ?p1 = "sample_page 3 1 [sample_oferta 1 ''a'']"
  let ?p3 = "sample_page 3 3 [sample_oferta 3 ''c'']"
  let ?t = "Inl (Error ''timeout of 30000ms exceeded'') :: error + int \<times> ApiResponse"
  let ?s = "Inr (503, \<lparr>success = ''OK'', payload = Some (sample_payload 3 2 [sample_oferta 2 ''b''])\<rparr>)
      :: error + int \<times> ApiResponse"
  let ?n = "Inr (200, \<lparr>success = ''ERROR'', payload = Some (sample_payload 3 2 [sample_oferta 2 ''b''])\<rparr>)
      :: error + int \<times> ApiResponse"
  let ?m = "Inr (200, \<lparr>success = ''OK'', payload = None\<rparr>) :: error + int \<times> ApiResponse"
  let ?n1 = "Inr (200, \<lparr>success = ''ERROR'', payload = Some (sample_payload 3 1 [sample_oferta 1 ''a''])\<rparr>)
      :: error + int \<times> ApiResponse"
  have u: "[2..2] = [2::int]" "[2..1] = ([]::int list)" by (simp_all add: upto.simps)
  have r: "pageResult ?t = Inl (Error ''timeout of 30000ms exceeded'')"
    "pageResult ?s = Inl (AxiosError 503)"
    "pageResult ?n = Inl (Error (api_error_prefix @ ''ERROR''))"
    "pageResult ?m = Inl (Error ''TypeError'')"
    "pageResult ?n1 = Inl (Error (api_error_prefix @ ''ERROR''))"
    by (simp_all add: pageResult_def accepted_def checkBody_def validateStatus_def)
  have a: "getAllOfertas sample_api sample_params (sample_world\<lparr>http_get_script := [?p1, ?t, ?p3]\<rparr>)
     = (Inr [sample_oferta 1 ''a''],
        sample_world\<lparr>clock := 2000,
          http_get_script := [?p3],
          trace :=
            [HttpGet ''https://api.example/compra-agil'' (firstPageParams sample_params),
             Delay 2000,
             HttpGet ''https://api.example/compra-agil''
               ((firstPageParams sample_params)\<lparr>page_number := 2\<rparr>)]\<rparr>)"
    using getAllOfertas_page_failure
      [of "sample_world\<lparr>http_get_script := [?p1, ?t, ?p3]\<rparr>" "[?p1]" ?t "[?p3]"
        "[sample_payload 3 1 [sample_oferta 1 ''a'']]" "Error ''timeout of 30000ms exceeded''"
        sample_api sample_params, THEN conjunct1]
    by (simp add: sample_page_result sample_payload_fields sample_api_fields sample_world_fields u r)
  have b: "fst (getAllOfertas sample_api sample_params (sample_world\<lparr>http_get_script := [?p1, ?s, ?p3]\<rparr>))
     = Inr [sample_oferta 1 ''a'']"
    using getAllOfertas_page_failure
      [of "sample_world\<lparr>http_get_script := [?p1, ?s, ?p3]\<rparr>" "[?p1]" ?s "[?p3]"
        "[sample_payload 3 1 [sample_oferta 1 ''a'']]" "AxiosError 503"
        sample_api sample_params, THEN conjunct1]
    by (simp add: sample_page_result sample_payload_fields r)
  have c: "fst (getAllOfertas sample_api sample_params (sample_world\<lparr>http_get_script := [?p1, ?n, ?p3]\<rparr>))
     = Inr [sample_oferta 1 ''a'']"
    using getAllOfertas_page_failure
      [of "sample_world\<lparr>http_get_script := [?p1, ?n, ?p3]\<rparr>" "[?p1]" ?n "[?p3]"
        "[sample_payload 3 1 [sample_oferta 1 ''a'']]" "Error (api_error_prefix @ ''ERROR'')"
        sample_api sample_params, THEN conjunct1]
    by (simp add: sample_page_result sample_payload_fields r)
  have d: "fst (getAllOfertas sample_api sample_params (sample_world\<lparr>http_get_script := [?p1, ?m, ?p3]\<rparr>))
     = Inr [sample_oferta 1 ''a'']"
    using getAllOfertas_page_failure
      [of "sample_world\<lparr>http_get_script := [?p1, ?m, ?p3]\<rparr>" "[?p1]" ?m "[?p3]"
        "[sample_payload 3 1 [sample_oferta 1 ''a'']]" "Error ''TypeError''"
        sample_api sample_params, THEN conjunct1]
    by (simp add: sample_page_result sample_payload_fields r)
  have f: "fst (getAllOfertas sample_api sample_params (sample_world\<lparr>http_get_script := [?n1]\<rparr>))
     = Inl (Error (api_error_prefix @ ''ERROR''))"
    using getAllOfertas_page_failure
      [of "sample_world\<lparr>http_get_script := [?n1]\<rparr>" "[]" ?n1 "[]" "[]"
        "Error (api_error_prefix @ ''ERROR'')" sample_api sample_params, THEN conjunct1]
    by (simp add: r)
  have g: "fst (getAllOfertas sample_api sample_params (sample_world\<lparr>http_get_script := [?t]\<rparr>))
     = Inl (Error ''timeout of 30000ms exceeded'')"
    using getAllOfertas_page_failure
      [of "sample_world\<lparr>http_get_script := [?t]\<rparr>" "[]" ?t "[]" "[]"
        "Error ''timeout of 30000ms exceeded''" sample_api sample_params, THEN conjunct1]
    by (simp add: r)
  from a b c d f g show ?thesis by blast
qed

section \<open>Dates: the time value follows the calendar\<close>


















section \<open>The notifier\<close>

lemma axios_post_script:
  "axios_post url body w =
     (case http_post_script w of
        [] \<Rightarrow> (Inl (Error ''Network Error''), w\<lparr>trace := trace w @ [HttpPost url body]\<rparr>)
      | Inl e # rs \<Rightarrow> (Inl e, w\<lparr>http_post_script := rs, trace := trace w @ [HttpPost url body]\<rparr>)
      | Inr st # rs \<Rightarrow>
          (if validateStatus st then Inr st else Inl (AxiosError st),
           w\<lparr>http_post_script := rs, trace := trace w @ [HttpPost url body]\<rparr>))"
  by (simp add: axios_post_def log_event_def split: list.splits sum.splits)

lemma sendOfertasReport_world:
  "snd (sendOfertasReport mailer ofertas emp recipients fecha w) =
     w\<lparr>http_post_script := tl (http_post_script w),
       trace := trace w @ [HttpPost (emailServiceUrl mailer) (report_email ofertas emp recipients fecha w)]\<rparr>"
  by (cases "http_post_script w")
     (auto simp: sendOfertasReport_def sendOfertasReport_try_def axios_post_script split: sum.splits)

lemma sendOfertasReport_result:
  "fst (sendOfertasReport mailer ofertas emp recipients fecha w) = (take 1 (http_post_script w) = [Inr 200])"
  by (cases "http_post_script w")
     (auto simp: sendOfertasReport_def sendOfertasReport_try_def axios_post_script validateStatus_def
        split: sum.splits)

lemma sendErrorNotification_world:
  "snd (sendErrorNotification mailer err emp recipients w) =
     w\<lparr>http_post_script := tl (http_post_script w),
       trace := trace w @ [HttpPost (emailServiceUrl mailer) (error_email err emp recipients w)]\<rparr>"
  by (cases "http_post_script w")
     (auto simp: sendErrorNotification_def sendErrorNotification_try_def axios_post_script split: sum.splits)

text \<open>
  Claim C9. For every list of records, recipients and period label,
  \<^verbatim>\<open>sendOfertasReport\<close> returns a boolean: it is \<^verbatim>\<open>true\<close> exactly when the answer to its
  POST has the status 200, and \<^verbatim>\<open>false\<close> in every other case (an error of the transport or
  a timeout, a status outside 2xx that axios throws, another 2xx status). It sends one
  message, to the delivery endpoint, addressed to all the recipients, whose body is the
  empty-state report when there is no record and the report of the records otherwise.
\<close>

theorem sendOfertasReport_true_iff_200:
  "fst (sendOfertasReport mailer ofertas emp recipients fecha w) = (take 1 (http_post_script w) = [Inr 200])
   \<and> trace (snd (sendOfertasReport mailer ofertas emp recipients fecha w)) =
       trace w @ [HttpPost (emailServiceUrl mailer) (report_email ofertas emp recipients fecha w)]
   \<and> mail_to (report_email ofertas emp recipients fecha w) = recipients
   \<and> mail_html (report_email ofertas emp recipients fecha w) =
       (if ofertas = []
        then NoOfertasHtml emp (str_or fecha (toLocaleDateString w (clock w))) (clock w)
        else OfertasHtml (prepareOfertasForEmail ofertas) emp
               (str_or fecha (toLocaleDateString w (clock w))) (clock w))"
  by (simp add: sendOfertasReport_result sendOfertasReport_world report_email_def
      generateEmailHTML_def prepareOfertasForEmail_def)

text \<open>
  An answer 200 gives \<^verbatim>\<open>true\<close>; the answers 201 and 500, a timeout and no answer give
  \<^verbatim>\<open>false\<close>; the empty list of records sends the empty-state report.
\<close>

theorem sendOfertasReport_true_iff_200_witness:
  "fst (sendOfertasReport (emailService sample_service) [] ''Servicios de Transporte'' [''a@example.com'']
          (Some ''2025-09-24 - 2025-09-24'') (sample_world\<lparr>http_post_script := [Inr 200]\<rparr>))
   \<and> \<not> fst (sendOfertasReport (emailService sample_service) [] ''Servicios de Transporte'' [''a@example.com'']
          (Some ''2025-09-24 - 2025-09-24'') (sample_world\<lparr>http_post_script := [Inr 201]\<rparr>))
   \<and> \<not> fst (sendOfertasReport (emailService sample_service) [] ''Servicios de Transporte'' [''a@example.com'']
          (Some ''2025-09-24 - 2025-09-24'') (sample_world\<lparr>http_post_script := [Inr 500]\<rparr>))
   \<and> \<not> fst (sendOfertasReport (emailService sample_service) [] ''Servicios de Transporte'' [''a@example.com'']
          (Some ''2025-09-24 - 2025-09-24'')
          (sample_world\<lparr>http_post_script := [Inl (Error ''timeout of 30000ms exceeded'')]\<rparr>))
   \<and> \<not> fst (sendOfertasReport (emailService sample_service) [] ''Servicios de Transporte'' [''a@example.com'']
          (Some ''2025-09-24 - 2025-09-24'') sample_world)
   \<and> mail_html (report_email [] ''Servicios de Transporte'' [''a@example.com'']
          (Some ''2025-09-24 - 2025-09-24'') sample_world)
       = NoOfertasHtml ''Servicios de Transporte'' ''2025-09-24 - 2025-09-24'' 0"
  using sendOfertasReport_true_iff_200[of "emailService sample_service" "[]" "''Servicios de Transporte''"
      "[''a@example.com'']" "Some ''2025-09-24 - 2025-09-24''" "sample_world\<lparr>http_post_script := [Inr 200]\<rparr>"]
    sendOfertasReport_true_iff_200[of "emailService sample_service" "[]" "''Servicios de Transporte''"
      "[''a@example.com'']" "Some ''2025-09-24 - 2025-09-24''" "sample_world\<lparr>http_post_script := [Inr 201]\<rparr>"]
    sendOfertasReport_true_iff_200[of "emailService sample_service" "[]" "''Servicios de Transporte''"
      "[''a@example.com'']" "Some ''2025-09-24 - 2025-09-24''" "sample_world\<lparr>http_post_script := [Inr 500]\<rparr>"]
    sendOfertasReport_true_iff_200[of "emailService sample_service" "[]" "''Servicios de Transporte''"
      "[''a@example.com'']" "Some ''2025-09-24 - 2025-09-24''"
      "sample_world\<lparr>http_post_script := [Inl (Error ''timeout of 30000ms exceeded'')]\<rparr>"]
    sendOfertasReport_true_iff_200[of "emailService sample_service" "[]" "''Servicios de Transporte''"
      "[''a@example.com'']" "Some ''2025-09-24 - 2025-09-24''" sample_world]
  by (simp add: sample_world_fields str_or_def)

section \<open>The orchestrator\<close>

lemma slice0_take: "0 \<le> n \<Longrightarrow> slice0 xs n = take (nat n) xs"
  by (simp add: slice0_def)

lemma insertOfertas_inserted_bounds:
  assumes "insertOfertas xs w = (Inr res, w')"
  shows "0 \<le> insertedCount res" "insertedCount res \<le> int (length xs)"
  using assms
  by (auto simp: insertOfertas_def split: if_splits option.splits dest: insertLoop_counts)

lemma processEmprendimiento_success:
  assumes "extractOffersForEmprendimiento x emp dateRange w = (ofertas, w1)"
    and "insertOfertas (removeDuplicateOffers ofertas) w1 = (Inr res, w2)"
  shows "processEmprendimiento x emp dateRange w =
     (Inr \<lparr>s_emprendimiento = emp_name emp,
           total_ofertas = int (length (removeDuplicateOffers ofertas)),
           nuevas_ofertas = insertedCount res,
           s_fecha_extraccion = clock w2,
           endpoints_consultados = map ep_name (endpoints emp)\<rparr>,
      if emailRecipients emp \<noteq> []
      then snd (sendOfertasReport (emailService x)
                  (take (nat (insertedCount res)) (removeDuplicateOffers ofertas))
                  (emp_name emp) (emailRecipients emp) (Some (periodLabel dateRange)) w2)
      else w2)"
proof -
  let ?news = "take (nat (insertedCount res)) (removeDuplicateOffers ofertas)"
  have sl: "slice0 (removeDuplicateOffers ofertas) (insertedCount res) = ?news"
    by (rule slice0_take[OF insertOfertas_inserted_bounds(1)[OF assms(2)]])
  obtain sent w3 where s: "sendOfertasReport (emailService x) ?news (emp_name emp)
      (emailRecipients emp) (Some (periodLabel dateRange)) w2 = (sent, w3)"
    by (cases "sendOfertasReport (emailService x) ?news (emp_name emp)
      (emailRecipients emp) (Some (periodLabel dateRange)) w2")
  have c: "clock w3 = clock w2"
    using sendOfertasReport_world[of "emailService x" ?news "emp_name emp" "emailRecipients emp"
        "Some (periodLabel dateRange)" w2] s by simp
  show ?thesis
    using assms s c by (simp add: processEmprendimiento_def sl)
qed

lemma processEmprendimiento_failure:
  assumes "extractOffersForEmprendimiento x emp dateRange w = (ofertas, w1)"
    and "insertOfertas (removeDuplicateOffers ofertas) w1 = (Inl e, w2)"
  shows "processEmprendimiento x emp dateRange w =
     (Inl e,
      if emailRecipients emp \<noteq> []
      then snd (sendErrorNotification (emailService x) e (emp_name emp) (emailRecipients emp) w2)
      else w2)"
  using assms by (simp add: processEmprendimiento_def)

lemma runLoop_step:
  "runLoop x dateRange (emp # rest) summaries w =
     runLoop x dateRange rest (summaries @ [lineSummary x dateRange emp w])
       (snd (processEmprendimiento x emp dateRange w))"
  by (simp add: lineSummary_def split: prod.splits sum.splits)

lemma runLoop_acc:
  "runLoop x dateRange emps summaries w =
     (summaries @ fst (runLoop x dateRange emps [] w), snd (runLoop x dateRange emps [] w))"
proof (induction emps arbitrary: summaries w)
  case Nil
  show ?case by simp
next
  case (Cons emp emps)
  show ?case
    unfolding runLoop_step
    by (subst Cons.IH, subst (2 3) Cons.IH) simp
qed

lemma runLoop_append:
  "runLoop x dateRange (pre @ post) [] w =
     (fst (runLoop x dateRange pre [] w) @ fst (runLoop x dateRange post [] (snd (runLoop x dateRange pre [] w))),
      snd (runLoop x dateRange post [] (snd (runLoop x dateRange pre [] w))))"
proof (induction pre arbitrary: w)
  case Nil
  show ?case by simp
next
  case (Cons emp pre)
  show ?case
    unfolding append_Cons runLoop_step
    by (subst runLoop_acc, subst (2 3) runLoop_acc, subst (4) runLoop_acc) (simp add: Cons.IH)
qed

lemma runLoop_length: "length (fst (runLoop x dateRange emps [] w)) = length emps"
proof (induction emps arbitrary: w)
  case Nil
  show ?case by simp
next
  case (Cons emp emps)
  show ?case unfolding runLoop_step by (subst runLoop_acc) (simp add: Cons.IH)
qed

lemma lineSummary_name: "s_emprendimiento (lineSummary x dateRange emp w) = emp_name emp"
  by (auto simp: lineSummary_def processEmprendimiento_def errorSummary_def split: prod.splits sum.splits)

lemma runLoop_names: "map s_emprendimiento (fst (runLoop x dateRange emps [] w)) = map emp_name emps"
proof (induction emps arbitrary: w)
  case Nil
  show ?case by simp
next
  case (Cons emp emps)
  show ?case unfolding runLoop_step by (subst runLoop_acc) (simp add: Cons.IH lineSummary_name)
qed

lemma runLoop_nth:
  "fst (runLoop x dateRange (pre @ emp # post) [] w) ! length pre =
     lineSummary x dateRange emp (snd (runLoop x dateRange pre [] w))"
proof -
  have "fst (runLoop x dateRange (emp # post) [] w') ! 0 = lineSummary x dateRange emp w'" for w'
    unfolding runLoop_step by (subst runLoop_acc) simp
  then show ?thesis
    by (simp add: runLoop_append[of x dateRange pre "emp # post"] nth_append runLoop_length)
qed

section \<open>The end-to-end scenario, step by step\<close>

lemma validate_sample_params: "validateParams sample_params = None"
  by (simp add: validateParams_def sample_params_def falsy_str_def str_or_def new_Date_def
      date_gt_def is_digit_def digit_val_def)

lemma scenario_query:
  "(ep_params (sample_endpoint e))\<lparr>p_date_from := Some (range_from scenario_range),
      p_date_to := Some (range_to scenario_range)\<rparr> = sample_params"
  by (simp add: sample_endpoint_def scenario_range_def sample_params_def)

lemma fetch_single_page:
  assumes "http_get_script W = sample_page 1 n ofs # rest"
  shows "getOfertasWithParams sample_api sample_params W =
     (Inr ofs,
      W\<lparr>http_get_script := rest,
        trace := trace W @ [HttpGet ''https://api.example/compra-agil'' (firstPageParams sample_params)]\<rparr>)"
  using assms
  by (simp add: getOfertasWithParams_def validate_sample_params getAllOfertas_def fetchPage_script
      sample_page_result sample_payload_fields sample_api_fields pagesLoop.simps)

lemma fetch_no_answer:
  assumes "http_get_script W = []"
  shows "getOfertasWithParams sample_api sample_params W =
     (Inl (Error ''Network Error''),
      W\<lparr>trace := trace W @ [HttpGet ''https://api.example/compra-agil'' (firstPageParams sample_params)]\<rparr>)"
  using assms
  by (simp add: getOfertasWithParams_def validate_sample_params getAllOfertas_def fetchPage_script
      sample_api_fields)

lemma sample_service_fields:
  "apiService sample_service = sample_api"
  "emailServiceUrl (emailService sample_service) = ''https://mail.example/send''"
  by (simp_all add: sample_service_def)

lemma sample_emprendimiento_fields:
  "emp_name (sample_emprendimiento r) = ''Servicios de Transporte''"
  "endpoints (sample_emprendimiento r) = [sample_endpoint ''A'', sample_endpoint ''B'']"
  "emailRecipients (sample_emprendimiento r) = r"
  "ep_name (sample_endpoint e) = e"
  by (simp_all add: sample_emprendimiento_def sample_endpoint_def)

lemma extract_single_page:
  assumes "http_get_script W = sample_page 1 n ofs # rest"
  shows "extractOffersForEndpoint sample_service (sample_emprendimiento r) (sample_endpoint e) scenario_range W =
     (Inr (map (toDocument (sample_emprendimiento r) (sample_endpoint e) (clock W)) ofs),
      W\<lparr>http_get_script := rest,
        trace := trace W @ [HttpGet ''https://api.example/compra-agil'' (firstPageParams sample_params)]\<rparr>)"
  using fetch_single_page[OF assms]
  by (simp add: extractOffersForEndpoint_def scenario_query sample_service_fields)

lemma extract_no_answer:
  assumes "http_get_script W = []"
  shows "extractOffersForEndpoint sample_service (sample_emprendimiento r) (sample_endpoint e) scenario_range W =
     (Inl (Error ''Network Error''),
      W\<lparr>trace := trace W @ [HttpGet ''https://api.example/compra-agil'' (firstPageParams sample_params)]\<rparr>)"
  using fetch_no_answer[OF assms]
  by (simp add: extractOffersForEndpoint_def scenario_query sample_service_fields)

lemma scenario_extract:
  "extractOffersForEmprendimiento sample_service (sample_emprendimiento r) scenario_range scenario_world =
     ([sample_doc 1 ''a'' ''A'', sample_doc 2 ''b'' ''A'',
       sample_doc_at 1000 2 ''b'' ''B'', sample_doc_at 1000 3 ''c'' ''B''],
      scenario_extracted)"
proof -
  let ?g = "HttpGet ''https://api.example/compra-agil'' (firstPageParams sample_params)"
  let ?p2 = "sample_page 1 1 [sample_oferta 2 ''b'', sample_oferta 3 ''c'']"
  let ?w1 = "scenario_world\<lparr>http_get_script := [?p2], trace := trace scenario_world @ [?g]\<rparr>"
  let ?w2 = "delay 1000 ?w1"
  let ?w3 = "?w2\<lparr>http_get_script := [], trace := trace ?w2 @ [?g]\<rparr>"
  have a: "extractOffersForEndpoint sample_service (sample_emprendimiento r) (sample_endpoint ''A'')
      scenario_range scenario_world =
      (Inr [sample_doc 1 ''a'' ''A'', sample_doc 2 ''b'' ''A''], ?w1)"
    using extract_single_page[of scenario_world 1 "[sample_oferta 1 ''a'', sample_oferta 2 ''b'']" "[?p2]" r "''A''"]
    by (simp add: scenario_world_def sample_world_fields toDocument_sample sample_doc_def)
  have b: "extractOffersForEndpoint sample_service (sample_emprendimiento r) (sample_endpoint ''B'')
      scenario_range ?w2 =
      (Inr [sample_doc_at 1000 2 ''b'' ''B'', sample_doc_at 1000 3 ''c'' ''B''], ?w3)"
    using extract_single_page[of ?w2 1 "[sample_oferta 2 ''b'', sample_oferta 3 ''c'']" "[]" r "''B''"]
    by (simp add: scenario_world_def sample_world_fields toDocument_sample delay_def log_event_def)
  have c: "delay 1000 ?w3 = scenario_extracted"
    by (simp add: scenario_extracted_def scenario_world_def sample_world_fields delay_def log_event_def)
  show ?thesis
    by (simp add: extractOffersForEmprendimiento_def sample_emprendimiento_fields a b c)
qed

lemma scenario_dedup:
  "removeDuplicateOffers [sample_doc 1 ''a'' ''A'', sample_doc 2 ''b'' ''A'',
       sample_doc_at 1000 2 ''b'' ''B'', sample_doc_at 1000 3 ''c'' ''B'']
     = [sample_doc 1 ''a'' ''A'', sample_doc 2 ''b'' ''A'', sample_doc_at 1000 3 ''c'' ''B'']"
  by (simp add: removeDuplicateOffers_def sample_doc_fields sample_doc_at_fields)

lemma scenario_extracted_fields:
  "isConnectionActive scenario_extracted" "db scenario_extracted"
  "unique_oferta_emprendimiento scenario_extracted" "storage_script scenario_extracted = []"
  "ofertas_collection scenario_extracted = [sample_doc 2 ''b'' ''Z'']"
  "clock scenario_extracted = 2000"
  by (simp_all add: scenario_extracted_def scenario_world_def sample_world_fields isConnectionActive_def)

lemma scenario_insert:
  "insertOfertas [sample_doc 1 ''a'' ''A'', sample_doc 2 ''b'' ''A'', sample_doc_at 1000 3 ''c'' ''B'']
      scenario_extracted
     = (Inr \<lparr>insertedCount = 2, duplicateCount = 1\<rparr>, scenario_inserted)"
proof -
  let ?batch = "[sample_doc 1 ''a'' ''A'', sample_doc 2 ''b'' ''A'', sample_doc_at 1000 3 ''c'' ''B'']"
  have ok: "storage_ok (length ?batch) scenario_extracted"
    by (simp add: storage_ok_def scenario_extracted_fields)
  have n: "newRecords (held_keys scenario_extracted) ?batch =
      [sample_doc 1 ''a'' ''A'', sample_doc_at 1000 3 ''c'' ''B'']"
    by (simp add: held_keys_def scenario_extracted_fields sample_doc_fields sample_doc_at_fields)
  have il: "insertLoop ?batch 0 0 scenario_extracted =
      (Inr \<lparr>insertedCount = 2, duplicateCount = 1\<rparr>, scenario_inserted)"
    using insertLoop_ok[OF scenario_extracted_fields(3) ok, of 0 0] unfolding n
    by (simp del: insertLoop.simps add: scenario_extracted_fields scenario_inserted_def)
  show ?thesis
    using il
    by (simp del: insertLoop.simps add: insertOfertas_def getOfertasCollection_def scenario_extracted_fields)
qed

lemma scenario_inserted_fields:
  "clock scenario_inserted = 2000" "http_post_script scenario_inserted = [Inr 200]"
  "filter isHttpPost (trace scenario_inserted) = []"
  by (simp_all add: scenario_inserted_def scenario_extracted_def scenario_world_def sample_world_fields)

text \<open>
  Claim C1, as the specification states it, fails for a business line without recipients:
  the report is sent only inside the guard \<^verbatim>\<open>emailRecipients.length > 0\<close>. In the scenario,
  with no recipient configured, the gateway reports two inserted records, the run of the
  business line succeeds, and no message is posted: the notifier is never called.
\<close>

theorem processEmprendimiento_notifies_first_N_counterexample:
  "emailRecipients (sample_emprendimiento []) = []
   \<and> processEmprendimiento sample_service (sample_emprendimiento []) scenario_range scenario_world
     = (Inr \<lparr>s_emprendimiento = ''Servicios de Transporte'', total_ofertas = 3, nuevas_ofertas = 2,
             s_fecha_extraccion = 2000, endpoints_consultados = [''A'', ''B'']\<rparr>,
        scenario_inserted)
   \<and> filter isHttpPost (trace scenario_inserted) = []
   \<and> http_post_script scenario_inserted = [Inr 200]"
proof -
  have "processEmprendimiento sample_service (sample_emprendimiento []) scenario_range scenario_world
     = (Inr \<lparr>s_emprendimiento = ''Servicios de Transporte'', total_ofertas = 3, nuevas_ofertas = 2,
             s_fecha_extraccion = 2000, endpoints_consultados = [''A'', ''B'']\<rparr>,
        scenario_inserted)"
    using processEmprendimiento_success[OF scenario_extract[of "[]"]
        scenario_insert[folded scenario_dedup]]
    by (simp add: scenario_dedup sample_emprendimiento_fields scenario_inserted_fields)
  then show ?thesis
    by (simp add: sample_emprendimiento_fields scenario_inserted_fields)
qed

text \<open>
  Claim C1, amended. For a business line that has at least one configured recipient: when
  the gateway reports \<open>N\<close> inserted records for the deduplicated batch, the orchestrator
  calls the notifier once, with exactly the first \<open>N\<close> records of the deduplicated batch, in
  their order, the name of the business line, its recipients and the period of the run, and
  the one message posted is the report of those records addressed to those recipients. For a
  business line without recipients the notifier is not called.
\<close>

theorem processEmprendimiento_notifies_first_N:
  assumes "extractOffersForEmprendimiento x emp dateRange w = (ofertas, w1)"
    and "insertOfertas (removeDuplicateOffers ofertas) w1 = (Inr res, w2)"
  shows "int (length (take (nat (insertedCount res)) (removeDuplicateOffers ofertas))) = insertedCount res
     \<and> (emailRecipients emp \<noteq> [] \<longrightarrow>
          snd (processEmprendimiento x emp dateRange w) =
            snd (sendOfertasReport (emailService x)
                   (take (nat (insertedCount res)) (removeDuplicateOffers ofertas))
                   (emp_name emp) (emailRecipients emp) (Some (periodLabel dateRange)) w2)
          \<and> trace (snd (processEmprendimiento x emp dateRange w)) =
              trace w2 @ [HttpPost (emailServiceUrl (emailService x))
                 (report_email (take (nat (insertedCount res)) (removeDuplicateOffers ofertas))
                    (emp_name emp) (emailRecipients emp) (Some (periodLabel dateRange)) w2)]
          \<and> mail_to (report_email (take (nat (insertedCount res)) (removeDuplicateOffers ofertas))
                    (emp_name emp) (emailRecipients emp) (Some (periodLabel dateRange)) w2)
              = emailRecipients emp)
     \<and> (emailRecipients emp = [] \<longrightarrow> snd (processEmprendimiento x emp dateRange w) = w2)"
proof -
  have n: "0 \<le> insertedCount res"
    "insertedCount res \<le> int (length (removeDuplicateOffers ofertas))"
    using insertOfertas_inserted_bounds[OF assms(2)] by simp_all
  then have len: "int (length (take (nat (insertedCount res)) (removeDuplicateOffers ofertas))) = insertedCount res"
    by simp
  show ?thesis
    using len processEmprendimiento_success[OF assms]
    by (simp add: sendOfertasReport_world report_email_def)
qed

text \<open>
  The scenario of the specification, with one recipient: after the merge the batch is
  the ids 1, 2, 3; the gateway reports 2 inserted (1 and 3 are new, 2 was stored); the
  message posted is the report of the first two records, the ids 1 and 2 that
  configuration A brought.
\<close>

theorem processEmprendimiento_notifies_first_N_witness:
  "trace (snd (processEmprendimiento sample_service (sample_emprendimiento [''a@example.com''])
        scenario_range scenario_world))
     = trace scenario_inserted
       @ [HttpPost ''https://mail.example/send''
           (report_email [sample_doc 1 ''a'' ''A'', sample_doc 2 ''b'' ''A'']
              ''Servicios de Transporte'' [''a@example.com'']
              (Some ''2025-09-24 - 2025-09-24'') scenario_inserted)]
   \<and> mail_to (report_email [sample_doc 1 ''a'' ''A'', sample_doc 2 ''b'' ''A'']
              ''Servicios de Transporte'' [''a@example.com'']
              (Some ''2025-09-24 - 2025-09-24'') scenario_inserted) = [''a@example.com'']"
  using processEmprendimiento_notifies_first_N[OF scenario_extract[of "[''a@example.com'']"]
      scenario_insert[folded scenario_dedup]]
  by (simp add: scenario_dedup sample_emprendimiento_fields sample_service_fields
      periodLabel_def scenario_range_def sendOfertasReport_world)

section \<open>The run over the business lines\<close>

lemma processEmprendimiento_Inl:
  assumes "fst (processEmprendimiento x emp dateRange w) = Inl e"
  shows "\<exists>ofertas w1 w2.
     extractOffersForEmprendimiento x emp dateRange w = (ofertas, w1)
     \<and> insertOfertas (removeDuplicateOffers ofertas) w1 = (Inl e, w2)"
proof -
  obtain ofertas w1 where ex: "extractOffersForEmprendimiento x emp dateRange w = (ofertas, w1)"
    by (cases "extractOffersForEmprendimiento x emp dateRange w")
  obtain r w2 where ins: "insertOfertas (removeDuplicateOffers ofertas) w1 = (r, w2)"
    by (cases "insertOfertas (removeDuplicateOffers ofertas) w1")
  show ?thesis
  proof (cases r)
    case (Inl e')
    with processEmprendimiento_failure[OF ex ins[unfolded Inl]] assms ex ins show ?thesis by simp
  next
    case (Inr res)
    with processEmprendimiento_success[OF ex ins[unfolded Inr]] assms show ?thesis by simp
  qed
qed

lemma processEmprendimiento_error_report:
  assumes "fst (processEmprendimiento x emp dateRange w) = Inl e" and "emailRecipients emp \<noteq> []"
  shows "\<exists>now. last (trace (snd (processEmprendimiento x emp dateRange w))) =
     HttpPost (emailServiceUrl (emailService x))
       \<lparr>mail_to = emailRecipients emp, mail_subject = error_subject (emp_name emp),
        mail_html = ErrorHtml (emp_name emp) e now\<rparr>"
proof -
  from processEmprendimiento_Inl[OF assms(1)] obtain ofertas w1 w2 where
    ex: "extractOffersForEmprendimiento x emp dateRange w = (ofertas, w1)"
    and ins: "insertOfertas (removeDuplicateOffers ofertas) w1 = (Inl e, w2)" by blast
  have "last (trace (snd (processEmprendimiento x emp dateRange w))) =
     HttpPost (emailServiceUrl (emailService x))
       \<lparr>mail_to = emailRecipients emp, mail_subject = error_subject (emp_name emp),
        mail_html = ErrorHtml (emp_name emp) e (clock w2)\<rparr>"
    using processEmprendimiento_failure[OF ex ins] assms(2)
    by (simp add: sendErrorNotification_world error_email_def)
  then show ?thesis by blast
qed

lemma lineSummary_error:
  assumes "fst (processEmprendimiento x emp dateRange w) = Inl e"
  shows "lineSummary x dateRange emp w =
     errorSummary emp (clock (snd (processEmprendimiento x emp dateRange w)))"
  using assms by (auto simp: lineSummary_def split: prod.splits sum.splits)

lemma runCompleteExtraction_connected:
  assumes "isConnectionActive w \<or> fst (connect w) = None"
  shows "runCompleteExtraction x emps isInitialRun w =
     (Inr (fst (runLoop x (generateDateRange isInitialRun w) emps []
                 (if isConnectionActive w then w else snd (connect w)))),
      snd (runLoop x (generateDateRange isInitialRun w) emps []
                 (if isConnectionActive w then w else snd (connect w))))"
  using assms
  by (cases "connect w") (auto simp: runCompleteExtraction_def split: prod.splits option.splits)

text \<open>Extraction and insertion post no message.\<close>

lemma fetchPage_posts: "posts (snd (fetchPage svc params w)) = posts w"
  by (simp add: fetchPage_script posts_def split: list.splits)

lemma delay_posts: "posts (delay ms w) = posts w"
  by (simp add: delay_def log_event_def posts_def)

lemma pagesLoop_posts:
  "posts (snd (snd (pagesLoop svc fp currentPage totalPages acc w))) = posts w"
proof (induction svc fp currentPage totalPages acc w rule: pagesLoop.induct)
  case (1 svc fp currentPage totalPages acc w)
  let ?w1 = "delay (delayBetweenRequests svc) w"
  obtain r w2 where f: "fetchPage svc (fp\<lparr>page_number := currentPage\<rparr>) ?w1 = (r, w2)"
    by (cases "fetchPage svc (fp\<lparr>page_number := currentPage\<rparr>) ?w1")
  have p2: "posts w2 = posts w"
    using fetchPage_posts[of svc "fp\<lparr>page_number := currentPage\<rparr>" ?w1] f
    by (simp add: delay_posts)
  show ?case
  proof (cases "currentPage \<le> totalPages")
    case False
    then show ?thesis by (subst pagesLoop.simps) simp
  next
    case True
    show ?thesis
    proof (cases r)
      case (Inl e)
      with True f p2 show ?thesis by (subst pagesLoop.simps) simp
    next
      case (Inr p)
      from "1.IH"[OF True f[symmetric] Inr] True f Inr p2 show ?thesis
        by (subst pagesLoop.simps) simp
    qed
  qed
qed

lemma getOfertasWithParams_posts: "posts (snd (getOfertasWithParams svc params w)) = posts w"
proof -
  have "posts (snd (getAllOfertas svc params w)) = posts w"
  proof -
    obtain r w1 where f: "fetchPage svc (firstPageParams params) w = (r, w1)"
      by (cases "fetchPage svc (firstPageParams params) w")
    have p1: "posts w1 = posts w" using fetchPage_posts[of svc "firstPageParams params" w] f by simp
    show ?thesis
    proof (cases r)
      case (Inl e)
      with f p1 show ?thesis by (simp add: getAllOfertas_def)
    next
      case (Inr p)
      obtain res acc w2 where l: "pagesLoop svc (firstPageParams params) 2 (pageCount p) (resultados p) w1
          = (res, acc, w2)"
        by (cases "pagesLoop svc (firstPageParams params) 2 (pageCount p) (resultados p) w1") auto
      have "posts w2 = posts w1"
        using pagesLoop_posts[of svc "firstPageParams params" 2 "pageCount p" "resultados p" w1] l by simp
      with f Inr l p1 show ?thesis by (cases res) (simp_all add: getAllOfertas_def)
    qed
  qed
  then show ?thesis by (simp add: getOfertasWithParams_def split: option.splits)
qed

lemma extractOffersForEndpoint_posts:
  "posts (snd (extractOffersForEndpoint x emp endpoint dateRange w)) = posts w"
  using getOfertasWithParams_posts[of "apiService x"
      "(ep_params endpoint)\<lparr>p_date_from := Some (range_from dateRange),
                              p_date_to := Some (range_to dateRange)\<rparr>" w]
  by (auto simp: extractOffersForEndpoint_def split: prod.splits sum.splits)

lemma extractLoop_posts: "posts (snd (extractLoop x emp dateRange eps acc w)) = posts w"
proof (induction eps arbitrary: acc w)
  case Nil
  show ?case by simp
next
  case (Cons endpoint eps)
  obtain r w1 where e: "extractOffersForEndpoint x emp endpoint dateRange w = (r, w1)"
    by (cases "extractOffersForEndpoint x emp endpoint dateRange w")
  have p1: "posts w1 = posts w"
    using extractOffersForEndpoint_posts[of x emp endpoint dateRange w] e by simp
  show ?case
    using e p1 by (cases r) (simp_all add: Cons.IH delay_posts)
qed

lemma insertLoop_posts: "posts (snd (insertLoop xs i d w)) = posts w"
proof (induction xs arbitrary: i d w)
  case Nil
  show ?case by simp
next
  case (Cons x xs)
  obtain r w1 where s: "insertOne x w = (r, w1)" by (cases "insertOne x w")
  have p1: "posts w1 = posts w" using insertOne_frame(1)[OF s] by (simp add: posts_def)
  show ?case using s p1 by (cases r) (simp_all add: Cons.IH)
qed

lemma insertOfertas_posts: "posts (snd (insertOfertas xs w)) = posts w"
  by (simp add: insertOfertas_def insertLoop_posts split: option.splits)

lemma processEmprendimiento_no_recipient:
  assumes "fst (processEmprendimiento x emp dateRange w) = Inl e" and "emailRecipients emp = []"
  shows "posts (snd (processEmprendimiento x emp dateRange w)) = posts w"
proof -
  from processEmprendimiento_Inl[OF assms(1)] obtain ofertas w1 w2 where
    ex: "extractOffersForEmprendimiento x emp dateRange w = (ofertas, w1)"
    and ins: "insertOfertas (removeDuplicateOffers ofertas) w1 = (Inl e, w2)" by blast
  have "posts w1 = posts w"
    using extractLoop_posts[of x emp dateRange "endpoints emp" "[]" w] ex
    by (simp add: extractOffersForEmprendimiento_def)
  moreover have "posts w2 = posts w1"
    using insertOfertas_posts[of "removeDuplicateOffers ofertas" w1] ins by simp
  ultimately show ?thesis
    using processEmprendimiento_failure[OF ex ins] assms(2) by simp
qed

lemma runCompleteExtraction_disconnected:
  assumes "\<not> isConnectionActive w" and "fst (connect w) = Some e"
  shows "runCompleteExtraction x emps isInitialRun w = (Inl e, snd (connect w))"
  using assms by (cases "connect w") (simp add: runCompleteExtraction_def)

section \<open>A run under partial failure, step by step\<close>

lemma extract_two_pages:
  assumes "http_get_script W =
      [sample_page 1 1 [sample_oferta 1 ''a'', sample_oferta 2 ''b''],
       sample_page 1 1 [sample_oferta 2 ''b'', sample_oferta 3 ''c'']]"
  shows "extractOffersForEmprendimiento sample_service (sample_emprendimiento r) scenario_range W =
     ([sample_doc_at (clock W) 1 ''a'' ''A'', sample_doc_at (clock W) 2 ''b'' ''A'',
       sample_doc_at (clock W + 1000) 2 ''b'' ''B'', sample_doc_at (clock W + 1000) 3 ''c'' ''B''],
      W\<lparr>clock := clock W + 2000, http_get_script := [],
        trace := trace W @
          [HttpGet ''https://api.example/compra-agil'' (firstPageParams sample_params),
           Delay 1000,
           HttpGet ''https://api.example/compra-agil'' (firstPageParams sample_params),
           Delay 1000]\<rparr>)"
proof -
  let ?g = "HttpGet ''https://api.example/compra-agil'' (firstPageParams sample_params)"
  let ?p2 = "sample_page 1 1 [sample_oferta 2 ''b'', sample_oferta 3 ''c'']"
  let ?w1 = "W\<lparr>http_get_script := [?p2], trace := trace W @ [?g]\<rparr>"
  let ?w2 = "delay 1000 ?w1"
  let ?w3 = "?w2\<lparr>http_get_script := [], trace := trace ?w2 @ [?g]\<rparr>"
  have a: "extractOffersForEndpoint sample_service (sample_emprendimiento r) (sample_endpoint ''A'')
      scenario_range W =
      (Inr [sample_doc_at (clock W) 1 ''a'' ''A'', sample_doc_at (clock W) 2 ''b'' ''A''], ?w1)"
    using extract_single_page[OF assms, of r "''A''"]
    by (simp add: toDocument_sample)
  have b: "extractOffersForEndpoint sample_service (sample_emprendimiento r) (sample_endpoint ''B'')
      scenario_range ?w2 =
      (Inr [sample_doc_at (clock W + 1000) 2 ''b'' ''B'', sample_doc_at (clock W + 1000) 3 ''c'' ''B''], ?w3)"
    using extract_single_page[of ?w2 1 "[sample_oferta 2 ''b'', sample_oferta 3 ''c'']" "[]" r "''B''"]
    by (simp add: toDocument_sample delay_def log_event_def)
  have c: "delay 1000 ?w3 = W\<lparr>clock := clock W + 2000, http_get_script := [],
        trace := trace W @ [?g, Delay 1000, ?g, Delay 1000]\<rparr>"
    by (simp add: delay_def log_event_def)
  show ?thesis
    by (simp add: extractOffersForEmprendimiento_def sample_emprendimiento_fields a b c)
qed

lemma extract_nothing:
  assumes "http_get_script W = []"
  shows "extractOffersForEmprendimiento sample_service (sample_emprendimiento r) scenario_range W =
     ([], W\<lparr>trace := trace W @
          [HttpGet ''https://api.example/compra-agil'' (firstPageParams sample_params),
           HttpGet ''https://api.example/compra-agil'' (firstPageParams sample_params)]\<rparr>)"
proof -
  let ?g = "HttpGet ''https://api.example/compra-agil'' (firstPageParams sample_params)"
  let ?w1 = "W\<lparr>trace := trace W @ [?g]\<rparr>"
  have a: "extractOffersForEndpoint sample_service (sample_emprendimiento r) (sample_endpoint ''A'')
      scenario_range W = (Inl (Error ''Network Error''), ?w1)"
    by (rule extract_no_answer[OF assms])
  have b: "extractOffersForEndpoint sample_service (sample_emprendimiento r) (sample_endpoint ''B'')
      scenario_range ?w1 = (Inl (Error ''Network Error''), ?w1\<lparr>trace := trace ?w1 @ [?g]\<rparr>)"
    using assms by (intro extract_no_answer) simp
  show ?thesis
    by (simp add: extractOffersForEmprendimiento_def sample_emprendimiento_fields a b)
qed

lemma partial_failure_world_fields:
  "clock partial_failure_world = 0" "trace partial_failure_world = []"
  "toISODate partial_failure_world t = ''2025-09-24''"
  "isConnectionActive partial_failure_world"
  "http_get_script partial_failure_world =
      [sample_page 1 1 [sample_oferta 1 ''a'', sample_oferta 2 ''b''],
       sample_page 1 1 [sample_oferta 2 ''b'', sample_oferta 3 ''c'']]"
  by (simp_all add: partial_failure_world_def scenario_world_def sample_world_def isConnectionActive_def)

lemma partial_failure_process:
  "processEmprendimiento sample_service (sample_emprendimiento r) scenario_range partial_failure_world
     = (Inl (Error ''connection lost''),
        if r \<noteq> []
        then snd (sendErrorNotification (emailService sample_service) (Error ''connection lost'')
                    ''Servicios de Transporte'' r partial_failure_failed)
        else partial_failure_failed)"
proof -
  let ?g = "HttpGet ''https://api.example/compra-agil'' (firstPageParams sample_params)"
  let ?docs = "[sample_doc 1 ''a'' ''A'', sample_doc 2 ''b'' ''A'',
       sample_doc_at 1000 2 ''b'' ''B'', sample_doc_at 1000 3 ''c'' ''B'']"
  let ?w1 = "partial_failure_world\<lparr>clock := 2000, http_get_script := [],
        trace := [?g, Delay 1000, ?g, Delay 1000]\<rparr>"
  have ex: "extractOffersForEmprendimiento sample_service (sample_emprendimiento r)
      scenario_range partial_failure_world = (?docs, ?w1)"
    using extract_two_pages[OF partial_failure_world_fields(5), of r]
    by (simp add: partial_failure_world_fields sample_doc_def)
  have u: "unique_oferta_emprendimiento ?w1"
    and s: "storage_script ?w1 = replicate (length ([]::OfertaDocument list)) None
        @ Some (as_failure (Error ''connection lost'')) # []"
    by (simp_all add: partial_failure_world_def scenario_world_def sample_world_def)
  have il: "insertLoop ([] @ sample_doc 1 ''a'' ''A'' # [sample_doc 2 ''b'' ''A'', sample_doc_at 1000 3 ''c'' ''B''])
      0 0 ?w1 = (Inl (Error ''connection lost''), partial_failure_failed)"
    using insertLoop_first_failure[OF u s, of "sample_doc 1 ''a'' ''A''"
        "[sample_doc 2 ''b'' ''A'', sample_doc_at 1000 3 ''c'' ''B'']" 0 0]
    by (simp del: insertLoop.simps add: partial_failure_failed_def partial_failure_world_def
        scenario_world_def sample_world_def thrown_as_failure)
  have ins: "insertOfertas (removeDuplicateOffers ?docs) ?w1 =
      (Inl (Error ''connection lost''), partial_failure_failed)"
    using il
    by (simp del: insertLoop.simps add: scenario_dedup insertOfertas_def getOfertasCollection_def
        isConnectionActive_def partial_failure_world_def scenario_world_def sample_world_def)
  show ?thesis
    using processEmprendimiento_failure[OF ex ins]
    by (simp add: sample_emprendimiento_fields)
qed

lemma partial_failure_first:
  "processEmprendimiento sample_service (sample_emprendimiento [''a@example.com'']) scenario_range
      partial_failure_world
     = (Inl (Error ''connection lost''), partial_failure_after_first)"
proof -
  have n: "snd (sendErrorNotification (emailService sample_service) (Error ''connection lost'')
        ''Servicios de Transporte'' [''a@example.com''] partial_failure_failed) = partial_failure_after_first"
    by (simp add: sendErrorNotification_world error_email_def sample_service_fields
        partial_failure_after_first_def partial_failure_failed_def partial_failure_world_def
        scenario_world_def sample_world_def)
  show ?thesis
    using partial_failure_process[of "[''a@example.com'']"] n by simp
qed

lemma partial_failure_no_recipient:
  "processEmprendimiento sample_service (sample_emprendimiento []) scenario_range partial_failure_world
     = (Inl (Error ''connection lost''), partial_failure_failed)"
  using partial_failure_process[of "[]"] by simp

lemma partial_failure_failed_fields:
  "posts partial_failure_failed = []"
  "http_post_script partial_failure_failed = [Inr 200, Inr 200]"
  by (simp_all add: posts_def partial_failure_failed_def partial_failure_world_def
      scenario_world_def sample_world_def)

lemma partial_failure_second:
  "fst (processEmprendimiento sample_service (sample_emprendimiento [''a@example.com'']) scenario_range
      partial_failure_after_first)
     = Inr \<lparr>s_emprendimiento = ''Servicios de Transporte'', total_ofertas = 0, nuevas_ofertas = 0,
            s_fecha_extraccion = 2000, endpoints_consultados = [''A'', ''B'']\<rparr>"
proof -
  let ?g = "HttpGet ''https://api.example/compra-agil'' (firstPageParams sample_params)"
  let ?w1 = "partial_failure_after_first\<lparr>trace := trace partial_failure_after_first @ [?g, ?g]\<rparr>"
  have g: "http_get_script partial_failure_after_first = []"
    by (simp add: partial_failure_after_first_def)
  have ex: "extractOffersForEmprendimiento sample_service (sample_emprendimiento [''a@example.com''])
      scenario_range partial_failure_after_first = ([], ?w1)"
    by (rule extract_nothing[OF g])
  have ins: "insertOfertas (removeDuplicateOffers []) ?w1 = (Inr \<lparr>insertedCount = 0, duplicateCount = 0\<rparr>, ?w1)"
    by (simp add: removeDuplicateOffers_def insertOfertas_def isConnectionActive_def
        partial_failure_after_first_def partial_failure_world_def scenario_world_def sample_world_def)
  have c: "clock ?w1 = 2000" by (simp add: partial_failure_after_first_def)
  show ?thesis
    using processEmprendimiento_success[OF ex ins] c
    by (simp add: sample_emprendimiento_fields removeDuplicateOffers_def)
qed

lemma partial_failure_run:
  "fst (runCompleteExtraction sample_service
      [sample_emprendimiento [''a@example.com''], sample_emprendimiento [''a@example.com'']]
      False partial_failure_world)
     = Inr [\<lparr>s_emprendimiento = ''Servicios de Transporte'', total_ofertas = 0, nuevas_ofertas = 0,
             s_fecha_extraccion = 2000, endpoints_consultados = []\<rparr>,
            \<lparr>s_emprendimiento = ''Servicios de Transporte'', total_ofertas = 0, nuevas_ofertas = 0,
             s_fecha_extraccion = 2000, endpoints_consultados = [''A'', ''B'']\<rparr>]"
proof -
  have dr: "generateDateRange False partial_failure_world = scenario_range"
    by (simp add: generateDateRange_def partial_failure_world_fields scenario_range_def)
  have c: "clock partial_failure_after_first = 2000" by (simp add: partial_failure_after_first_def)
  have l1: "lineSummary sample_service scenario_range (sample_emprendimiento [''a@example.com''])
      partial_failure_world = errorSummary (sample_emprendimiento [''a@example.com'']) 2000"
    by (simp add: lineSummary_def partial_failure_first c)
  have l2: "lineSummary sample_service scenario_range (sample_emprendimiento [''a@example.com''])
      partial_failure_after_first =
      \<lparr>s_emprendimiento = ''Servicios de Transporte'', total_ofertas = 0, nuevas_ofertas = 0,
       s_fecha_extraccion = 2000, endpoints_consultados = [''A'', ''B'']\<rparr>"
    using partial_failure_second
    by (cases "processEmprendimiento sample_service (sample_emprendimiento [''a@example.com''])
          scenario_range partial_failure_after_first") (simp add: lineSummary_def)
  show ?thesis
    using runCompleteExtraction_connected[of partial_failure_world sample_service
        "[sample_emprendimiento [''a@example.com''], sample_emprendimiento [''a@example.com'']]" False]
    by (simp add: partial_failure_world_fields dr runLoop_step l1 l2 partial_failure_first
        errorSummary_def sample_emprendimiento_fields runLoop.simps(1) del: runLoop.simps(2))
qed

text \<open>
  Claim C2, as the specification states it, fails in two places. A run that starts
  disconnected from a store it cannot reach returns no summary at all: \<^verbatim>\<open>connect()\<close> is
  awaited outside every \<^verbatim>\<open>try\<close> and its error leaves \<^verbatim>\<open>runCompleteExtraction\<close>. And when
  processing a business line without recipients throws, no error report is sent: the
  notification is inside the guard \<^verbatim>\<open>emailRecipients.length > 0\<close>.
\<close>

theorem runCompleteExtraction_one_summary_per_line_counterexample:
  "\<not> isConnectionActive unreachable_world
   \<and> fst (runCompleteExtraction sample_service
        [sample_emprendimiento [''a@example.com''], sample_emprendimiento [''b@example.com'']]
        False unreachable_world)
     = Inl (Error ''ECONNREFUSED'')
   \<and> emailRecipients (sample_emprendimiento []) = []
   \<and> processEmprendimiento sample_service (sample_emprendimiento []) scenario_range partial_failure_world
     = (Inl (Error ''connection lost''), partial_failure_failed)
   \<and> filter isHttpPost (trace partial_failure_failed) = []
   \<and> http_post_script partial_failure_failed = [Inr 200, Inr 200]"
proof -
  have a: "\<not> isConnectionActive unreachable_world
   \<and> fst (runCompleteExtraction sample_service
        [sample_emprendimiento [''a@example.com''], sample_emprendimiento [''b@example.com'']]
        False unreachable_world)
     = Inl (Error ''ECONNREFUSED'')"
    by (simp add: runCompleteExtraction_def connect_def storage_call_def log_event_def
        isConnectionActive_def unreachable_world_def scenario_world_def sample_world_def
        thrown_as_failure)
  show ?thesis
    using a partial_failure_no_recipient partial_failure_failed_fields
    by (simp add: sample_emprendimiento_fields posts_def)
qed

text \<open>
  Claim C2, amended. For every run that finds the connection to the store active or
  establishes it, \<^verbatim>\<open>runCompleteExtraction\<close> returns one summary for each configured
  business line, in the order of the configuration. Every line is processed in the world
  left by the lines before it, whether those succeeded or failed. When processing a line
  returns a summary, that summary stands at the position of the line. When processing a line
  throws, the summary at its position carries its name, total 0, newly inserted 0 and no
  configuration; when the line has recipients, the last thing done for it is the post of
  the error report of that error to its recipients, and when it has none, nothing is posted
  for it. For a run that finds the connection inactive and whose \<^verbatim>\<open>connect()\<close> throws, that
  error leaves the run, in the world \<^verbatim>\<open>connect()\<close> left: no business line is processed and
  no summary is returned.
\<close>

theorem runCompleteExtraction_one_summary_per_line:
  "(isConnectionActive w \<or> fst (connect w) = None \<longrightarrow>
     (\<exists>summaries w'.
      runCompleteExtraction x emprendimientos isInitialRun w = (Inr summaries, w')
      \<and> map s_emprendimiento summaries = map emp_name emprendimientos
      \<and> (\<forall>pre emp post summary.
            emprendimientos = pre @ emp # post
            \<and> fst (processEmprendimiento x emp (generateDateRange isInitialRun w)
                     (lineWorld x (generateDateRange isInitialRun w) pre w)) = Inr summary \<longrightarrow>
            summaries ! length pre = summary)
      \<and> (\<forall>pre emp post e.
            emprendimientos = pre @ emp # post
            \<and> fst (processEmprendimiento x emp (generateDateRange isInitialRun w)
                     (lineWorld x (generateDateRange isInitialRun w) pre w)) = Inl e \<longrightarrow>
            s_emprendimiento (summaries ! length pre) = emp_name emp
            \<and> total_ofertas (summaries ! length pre) = 0
            \<and> nuevas_ofertas (summaries ! length pre) = 0
            \<and> endpoints_consultados (summaries ! length pre) = []
            \<and> (emailRecipients emp \<noteq> [] \<longrightarrow>
                 (\<exists>now. last (trace (snd (processEmprendimiento x emp (generateDateRange isInitialRun w)
                                 (lineWorld x (generateDateRange isInitialRun w) pre w)))) =
                    HttpPost (emailServiceUrl (emailService x))
                      \<lparr>mail_to = emailRecipients emp, mail_subject = error_subject (emp_name emp),
                       mail_html = ErrorHtml (emp_name emp) e now\<rparr>))
            \<and> (emailRecipients emp = [] \<longrightarrow>
                 posts (snd (processEmprendimiento x emp (generateDateRange isInitialRun w)
                               (lineWorld x (generateDateRange isInitialRun w) pre w)))
                 = posts (lineWorld x (generateDateRange isInitialRun w) pre w)))))
   \<and> (\<forall>e. \<not> isConnectionActive w \<and> fst (connect w) = Some e \<longrightarrow>
        runCompleteExtraction x emprendimientos isInitialRun w = (Inl e, snd (connect w)))"
proof (intro conjI impI allI)
  fix e
  assume "\<not> isConnectionActive w \<and> fst (connect w) = Some e"
  then show "runCompleteExtraction x emprendimientos isInitialRun w = (Inl e, snd (connect w))"
    using runCompleteExtraction_disconnected[of w e x emprendimientos isInitialRun] by simp
next
  assume con: "isConnectionActive w \<or> fst (connect w) = None"
  let ?dr = "generateDateRange isInitialRun w"
  let ?w1 = "if isConnectionActive w then w else snd (connect w)"
  let ?sums = "fst (runLoop x ?dr emprendimientos [] ?w1)"
  have run: "runCompleteExtraction x emprendimientos isInitialRun w =
      (Inr ?sums, snd (runLoop x ?dr emprendimientos [] ?w1))"
    by (rule runCompleteExtraction_connected[OF con])
  have names: "map s_emprendimiento ?sums = map emp_name emprendimientos"
    by (rule runLoop_names)
  have nth: "?sums ! length pre = lineSummary x ?dr emp (lineWorld x ?dr pre w)"
    if "emprendimientos = pre @ emp # post" for pre emp post
    using that runLoop_nth[of x ?dr pre emp post ?w1] by (simp add: lineWorld_def)
  have err: "s_emprendimiento (?sums ! length pre) = emp_name emp
            \<and> total_ofertas (?sums ! length pre) = 0
            \<and> nuevas_ofertas (?sums ! length pre) = 0
            \<and> endpoints_consultados (?sums ! length pre) = []
            \<and> (emailRecipients emp \<noteq> [] \<longrightarrow>
                 (\<exists>now. last (trace (snd (processEmprendimiento x emp ?dr (lineWorld x ?dr pre w)))) =
                    HttpPost (emailServiceUrl (emailService x))
                      \<lparr>mail_to = emailRecipients emp, mail_subject = error_subject (emp_name emp),
                       mail_html = ErrorHtml (emp_name emp) e now\<rparr>))
            \<and> (emailRecipients emp = [] \<longrightarrow>
                 posts (snd (processEmprendimiento x emp ?dr (lineWorld x ?dr pre w)))
                 = posts (lineWorld x ?dr pre w))"
    if "emprendimientos = pre @ emp # post \<and>
        fst (processEmprendimiento x emp ?dr (lineWorld x ?dr pre w)) = Inl e" for pre emp post e
  proof -
    from that have a: "emprendimientos = pre @ emp # post"
      and b: "fst (processEmprendimiento x emp ?dr (lineWorld x ?dr pre w)) = Inl e" by simp_all
    have s: "?sums ! length pre =
        errorSummary emp (clock (snd (processEmprendimiento x emp ?dr (lineWorld x ?dr pre w))))"
      using nth[OF a] lineSummary_error[OF b] by simp
    show ?thesis
      using processEmprendimiento_error_report[OF b] processEmprendimiento_no_recipient[OF b]
      unfolding s by (simp add: errorSummary_def)
  qed
  have ok: "?sums ! length pre = summary"
    if "emprendimientos = pre @ emp # post \<and>
        fst (processEmprendimiento x emp ?dr (lineWorld x ?dr pre w)) = Inr summary"
    for pre emp post summary
  proof -
    from that have a: "emprendimientos = pre @ emp # post"
      and b: "fst (processEmprendimiento x emp ?dr (lineWorld x ?dr pre w)) = Inr summary" by simp_all
    have "lineSummary x ?dr emp (lineWorld x ?dr pre w) = summary"
      using b by (auto simp: lineSummary_def split: prod.splits sum.splits)
    with nth[OF a] show ?thesis by simp
  qed
  show "\<exists>summaries w'.
      runCompleteExtraction x emprendimientos isInitialRun w = (Inr summaries, w')
      \<and> map s_emprendimiento summaries = map emp_name emprendimientos
      \<and> (\<forall>pre emp post summary.
            emprendimientos = pre @ emp # post
            \<and> fst (processEmprendimiento x emp ?dr (lineWorld x ?dr pre w)) = Inr summary \<longrightarrow>
            summaries ! length pre = summary)
      \<and> (\<forall>pre emp post e.
            emprendimientos = pre @ emp # post
            \<and> fst (processEmprendimiento x emp ?dr (lineWorld x ?dr pre w)) = Inl e \<longrightarrow>
            s_emprendimiento (summaries ! length pre) = emp_name emp
            \<and> total_ofertas (summaries ! length pre) = 0
            \<and> nuevas_ofertas (summaries ! length pre) = 0
            \<and> endpoints_consultados (summaries ! length pre) = []
            \<and> (emailRecipients emp \<noteq> [] \<longrightarrow>
                 (\<exists>now. last (trace (snd (processEmprendimiento x emp ?dr (lineWorld x ?dr pre w)))) =
                    HttpPost (emailServiceUrl (emailService x))
                      \<lparr>mail_to = emailRecipients emp, mail_subject = error_subject (emp_name emp),
                       mail_html = ErrorHtml (emp_name emp) e now\<rparr>))
            \<and> (emailRecipients emp = [] \<longrightarrow>
                 posts (snd (processEmprendimiento x emp ?dr (lineWorld x ?dr pre w)))
                 = posts (lineWorld x ?dr pre w)))"
    using run names ok err by blast
qed

text \<open>
  Two business lines. For the first, the connection to the store is lost at the first
  insertion: the error report is posted to its recipient and its summary is the zero-valued
  one. The second is still processed: the source answers nothing, nothing is stored, and its
  summary names its two configurations. And the run that cannot connect throws the error of
  \<^verbatim>\<open>connect()\<close>.
\<close>

theorem runCompleteExtraction_one_summary_per_line_witness:
  "isConnectionActive partial_failure_world
   \<and> fst (runCompleteExtraction sample_service
      [sample_emprendimiento [''a@example.com''], sample_emprendimiento [''a@example.com'']]
      False partial_failure_world)
     = Inr [\<lparr>s_emprendimiento = ''Servicios de Transporte'', total_ofertas = 0, nuevas_ofertas = 0,
             s_fecha_extraccion = 2000, endpoints_consultados = []\<rparr>,
            \<lparr>s_emprendimiento = ''Servicios de Transporte'', total_ofertas = 0, nuevas_ofertas = 0,
             s_fecha_extraccion = 2000, endpoints_consultados = [''A'', ''B'']\<rparr>]
   \<and> last (trace (snd (processEmprendimiento sample_service (sample_emprendimiento [''a@example.com''])
        (generateDateRange False partial_failure_world)
        (lineWorld sample_service (generateDateRange False partial_failure_world) [] partial_failure_world))))
     = HttpPost ''https://mail.example/send''
            \<lparr>mail_to = [''a@example.com''],
             mail_subject = error_subject ''Servicios de Transporte'',
             mail_html = ErrorHtml ''Servicios de Transporte'' (Error ''connection lost'') 2000\<rparr>
   \<and> fst (connect unreachable_world) = Some (Error ''ECONNREFUSED'')
   \<and> runCompleteExtraction sample_service [sample_emprendimiento [''a@example.com'']] True unreachable_world
     = (Inl (Error ''ECONNREFUSED''), snd (connect unreachable_world))"
proof -
  let ?emps = "[sample_emprendimiento [''a@example.com''], sample_emprendimiento [''a@example.com'']]"
  have act: "isConnectionActive partial_failure_world \<or> fst (connect partial_failure_world) = None"
    by (simp add: partial_failure_world_fields)
  have dr: "generateDateRange False partial_failure_world = scenario_range"
    by (simp add: generateDateRange_def partial_failure_world_fields scenario_range_def)
  have lw: "lineWorld sample_service scenario_range [] partial_failure_world = partial_failure_world"
    by (simp add: lineWorld_def partial_failure_world_fields)
  from runCompleteExtraction_one_summary_per_line
      [of partial_failure_world sample_service ?emps False, THEN conjunct1, rule_format, OF act]
  obtain summaries w' where
    run: "runCompleteExtraction sample_service ?emps False partial_failure_world = (Inr summaries, w')"
    and names: "map s_emprendimiento summaries = map emp_name ?emps"
    by blast
  have l: "last (trace partial_failure_after_first) = HttpPost ''https://mail.example/send''
            \<lparr>mail_to = [''a@example.com''],
             mail_subject = error_subject ''Servicios de Transporte'',
             mail_html = ErrorHtml ''Servicios de Transporte'' (Error ''connection lost'') 2000\<rparr>"
    by (simp add: partial_failure_after_first_def)
  have un: "\<not> isConnectionActive unreachable_world
      \<and> fst (connect unreachable_world) = Some (Error ''ECONNREFUSED'')"
    by (simp add: connect_def storage_call_def log_event_def isConnectionActive_def
        unreachable_world_def scenario_world_def sample_world_def thrown_as_failure)
  have dis: "runCompleteExtraction sample_service [sample_emprendimiento [''a@example.com'']] True
      unreachable_world = (Inl (Error ''ECONNREFUSED''), snd (connect unreachable_world))"
    using runCompleteExtraction_one_summary_per_line
      [of unreachable_world sample_service "[sample_emprendimiento [''a@example.com'']]" True,
        THEN conjunct2, rule_format, OF un] .
  from run names show ?thesis
    using partial_failure_run l dis un
    by (simp add: partial_failure_world_fields dr lw partial_failure_first)
qed

end
